theory Spec2Isabelle
  imports Complex_Main "HOL-Library.AList"
begin

section \<open>Python values, dictionaries and exceptions\<close>

text \<open>
  The three tools of \<^verbatim>\<open>pdf_mcp_server.py\<close> build and return Python dictionaries.
  A dictionary is an association list in insertion order; \<open>d[k] = v\<close> is
  \<open>AList.update k v d\<close> (replace in place, or append a new key at the end) and a
  lookup is \<open>map_of d k\<close>. \<open>PyObj s\<close> is any object that is none of the other
  shapes, carried with its \<open>str()\<close> rendering \<open>s\<close>. A float is only ever passed
  through (the modification time of a file), never computed with.
\<close>

datatype pyval =
    PyNone
  | PyBool bool
  | PyInt int
  | PyFloat real
  | PyStr string
  | PyObj string
  | PyList "pyval list"
  | PyDict "(string \<times> pyval) list"

type_synonym pydict = "(string \<times> pyval) list"

text \<open>
  The handlers of all three tools tell \<open>PermissionError\<close> from every other
  subclass of \<open>Exception\<close>; the string is \<open>str(e)\<close>. Asynchronous interrupts
  (which are not subclasses of \<open>Exception\<close>) are outside this model.
\<close>

datatype exn = PermissionError string | OtherException string

text \<open>\<open>result[k].append(v)\<close>: the list stored under \<open>k\<close> grows by one element.\<close>

definition dict_append :: "string \<Rightarrow> pyval \<Rightarrow> pydict \<Rightarrow> pydict" where
  "dict_append k v d =
     (case map_of d k of
        Some (PyList xs) \<Rightarrow> AList.update k (PyList (xs @ [v])) d
      | _ \<Rightarrow> d)"

section \<open>Strings\<close>

text \<open>
  \<open>str.lower\<close> on the letters \<open>A\<close> to \<open>Z\<close>. Python lowers every cased code
  point, but no code point outside ASCII lowers to \<open>.\<close>, \<open>p\<close>, \<open>d\<close> or \<open>f\<close>,
  so for the suffix test of the source the two agree.
\<close>

definition lower_char :: "char \<Rightarrow> char" where
  "lower_char c =
     (let n = (of_char c :: nat) in if 65 \<le> n \<and> n \<le> 90 then char_of (n + 32) else c)"

definition lower :: "string \<Rightarrow> string" where
  "lower s = map lower_char s"

definition endswith :: "string \<Rightarrow> string \<Rightarrow> bool" where
  "endswith s suf = (length suf \<le> length s \<and> drop (length s - length suf) s = suf)"

text \<open>\<open>sep.join(parts)\<close>\<close>

fun join :: "string \<Rightarrow> string list \<Rightarrow> string" where
  "join sep [] = []"
| "join sep [x] = x"
| "join sep (x # y # ys) = x @ sep @ join sep (y # ys)"

definition newline2 :: string where
  "newline2 = [CHR 0x0A, CHR 0x0A]"

section \<open>The PDF libraries and the filesystem\<close>

text \<open>
  A page of a document opened by pdfplumber: what \<open>extract_text()\<close> returns
  (\<open>None\<close> or a string) or raises, and what \<open>extract_tables()\<close> returns (a list of
  tables, each a list of rows of nullable cells) or raises.
\<close>

type_synonym table = "string option list list"

record page =
  extract_text :: "exn + string option"
  extract_tables :: "exn + table list"

record pdf =
  pages :: "exn + page list"

text \<open>
  A document read by PyPDF2: \<open>len(pdf_reader.pages)\<close> and \<open>pdf_reader.metadata\<close>
  (\<open>None\<close>, or the info dictionary with its keys in order), each of which may raise.
  A value of the info dictionary is a text string (a \<open>str\<close>), or some other PDF
  object: a number, a name, a null and so on. The source puts the object itself into the
  result for five of the keys and its \<open>str()\<close> rendering for the two dates, so such an
  object is carried as the value it is in the result together with that rendering.
\<close>

datatype pdfobj = TextString string | OtherObject pyval string

record pdf_reader =
  reader_num_pages :: "exn + nat"
  reader_metadata :: "exn + (string \<times> pdfobj) list option"

text \<open>
  The world a call runs in. \<open>os.path.isabs\<close>, \<open>exists\<close> and \<open>isdir\<close> return a
  boolean for every string. \<open>os_walk\<close> is the outcome of iterating
  \<open>os.walk(directory_path)\<close> to its end together with the path computations done
  outside the per-file handler: the triples \<open>(root, dirs, files)\<close> in traversal
  order, or the exception that ended the iteration.
\<close>

record env =
  os_path_isabs :: "string \<Rightarrow> bool"
  os_path_exists :: "string \<Rightarrow> bool"
  os_path_isdir :: "string \<Rightarrow> bool"
  os_path_getsize :: "string \<Rightarrow> exn + nat"
  os_path_getmtime :: "string \<Rightarrow> exn + real"
  os_path_abspath :: "string \<Rightarrow> string"
  os_path_join :: "string \<Rightarrow> string \<Rightarrow> string"
  os_path_relpath :: "string \<Rightarrow> string \<Rightarrow> string"
  os_walk :: "string \<Rightarrow> exn + (string \<times> string list \<times> string list) list"
  pdfplumber_open :: "string \<Rightarrow> exn + pdf"
  open_rb :: "string \<Rightarrow> exn + string"
  PdfReader :: "string \<Rightarrow> exn + pdf_reader"

section \<open>read_pdf_text\<close>

text \<open>A table as the nested lists the result carries.\<close>

definition cell_val :: "string option \<Rightarrow> pyval" where
  "cell_val c = (case c of None \<Rightarrow> PyNone | Some s \<Rightarrow> PyStr s)"

definition table_val :: "table \<Rightarrow> pyval" where
  "table_val t = PyList (map (\<lambda>row. PyList (map cell_val row)) t)"

text \<open>
  \<open>pdf.pages[page_idx]\<close>: an index from \<open>0\<close> counts from the front, one below
  \<open>0\<close> from the back, and any other raises IndexError.
\<close>

definition list_index :: "'a list \<Rightarrow> int \<Rightarrow> exn + 'a" where
  "list_index xs i =
     (if 0 \<le> i \<and> i < int (length xs) then Inr (xs ! nat i)
      else if i < 0 \<and> - int (length xs) \<le> i then Inr (xs ! nat (int (length xs) + i))
      else Inl (OtherException ''list index out of range''))"

text \<open>\<open>page.extract_text() or ""\<close>\<close>

definition text_or_empty :: "string option \<Rightarrow> string" where
  "text_or_empty t = (case t of None \<Rightarrow> [] | Some s \<Rightarrow> s)"

text \<open>
  The inner \<open>try\<close> of the loop body: the tables of the page, or an empty list and
  the message of the exception.
\<close>

definition add_tables :: "page \<Rightarrow> pydict \<Rightarrow> pydict" where
  "add_tables pg page_info =
     (case extract_tables pg of
        Inr tables \<Rightarrow>
          AList.update ''tables'' (PyList (if tables \<noteq> [] then map table_val tables else []))
            page_info
      | Inl e \<Rightarrow>
          AList.update ''table_extraction_error''
            (PyStr (case e of PermissionError m \<Rightarrow> m | OtherException m \<Rightarrow> m))
            (AList.update ''tables'' (PyList []) page_info))"

text \<open>One iteration of the loop: the page's dictionary and its text.\<close>

definition process_page :: "page list \<Rightarrow> bool \<Rightarrow> int \<Rightarrow> exn + (pydict \<times> string)" where
  "process_page pdf_pages extract_tbls page_idx =
     (case list_index pdf_pages page_idx of
        Inl e \<Rightarrow> Inl e
      | Inr pg \<Rightarrow>
          (case extract_text pg of
             Inl e \<Rightarrow> Inl e
           | Inr t \<Rightarrow>
              (let page_text = text_or_empty t;
                    page_info = [(''page_number'', PyInt (page_idx + 1)),
                                 (''text'', PyStr page_text)];
                    page_info = (if extract_tbls then add_tables pg page_info else page_info)
                in Inr (page_info, page_text))))"

text \<open>
  The loop over \<open>pages_to_process\<close>; its state is \<open>result\<close> and
  \<open>full_text_parts\<close>. An exception leaves the loop at once.
\<close>

fun process_pages ::
  "page list \<Rightarrow> bool \<Rightarrow> int list \<Rightarrow> pydict \<times> string list \<Rightarrow> exn + (pydict \<times> string list)"
where
  "process_pages pdf_pages extract_tbls [] st = Inr st"
| "process_pages pdf_pages extract_tbls (page_idx # rest) (result, full_text_parts) =
     (case process_page pdf_pages extract_tbls page_idx of
        Inl e \<Rightarrow> Inl e
      | Inr (page_info, page_text) \<Rightarrow>
          process_pages pdf_pages extract_tbls rest
            (dict_append ''pages'' (PyDict page_info) result, full_text_parts @ [page_text]))"

definition pages_to_process :: "int list option \<Rightarrow> nat \<Rightarrow> int list" where
  "pages_to_process page_numbers n =
     (case page_numbers of
        None \<Rightarrow> map int [0..<n]
      | Some ps \<Rightarrow> map (\<lambda>p. p - 1) (filter (\<lambda>p. 0 < p \<and> p \<le> int n) ps))"

definition failure :: "string \<Rightarrow> pydict" where
  "failure msg = [(''success'', PyBool False), (''error'', PyStr msg)]"

text \<open>The body of the \<open>try\<close>: it returns a dictionary or raises.\<close>

definition read_pdf_text_try ::
  "env \<Rightarrow> string \<Rightarrow> int list option \<Rightarrow> bool \<Rightarrow> exn + pydict" where
  "read_pdf_text_try e file_path page_numbers extract_tbls =
     (if \<not> os_path_isabs e file_path then
        Inr (failure (''File path must be absolute path, got: '' @ file_path))
      else if \<not> os_path_exists e file_path then
        Inr (failure (''File not found: '' @ file_path))
      else if \<not> endswith (lower file_path) ''.pdf'' then
        Inr (failure ''File must be a PDF'')
      else
        (let result = [(''success'', PyBool True),
                       (''file_path'', PyStr file_path),
                       (''pages'', PyList []),
                       (''total_pages'', PyInt 0),
                       (''full_text'', PyStr [])]
         in (case pdfplumber_open e file_path of
               Inl x \<Rightarrow> Inl x
             | Inr doc \<Rightarrow>
                (case pages doc of
                   Inl x \<Rightarrow> Inl x
                 | Inr pdf_pages \<Rightarrow>
                    (let result = AList.update ''total_pages''
                                    (PyInt (int (length pdf_pages))) result
                     in (case process_pages pdf_pages extract_tbls
                                (pages_to_process page_numbers (length pdf_pages))
                                (result, []) of
                           Inl x \<Rightarrow> Inl x
                         | Inr (result, full_text_parts) \<Rightarrow>
                             Inr (AList.update ''full_text''
                                    (PyStr (join newline2 full_text_parts)) result)))))))"

text \<open>The two handlers of the \<open>try\<close>.\<close>

definition read_pdf_text ::
  "env \<Rightarrow> string \<Rightarrow> int list option \<Rightarrow> bool \<Rightarrow> exn + pydict" where
  "read_pdf_text e file_path page_numbers extract_tbls =
     (case read_pdf_text_try e file_path page_numbers extract_tbls of
        Inr result \<Rightarrow> Inr result
      | Inl (PermissionError m) \<Rightarrow>
          Inr (failure (''Permission denied accessing file: '' @ file_path @ ''. Error: '' @ m))
      | Inl (OtherException m) \<Rightarrow>
          Inr (failure (''Error reading PDF: '' @ m)))"

section \<open>get_pdf_info\<close>

definition obj_val :: "pdfobj \<Rightarrow> pyval" where
  "obj_val v = (case v of TextString s \<Rightarrow> PyStr s | OtherObject x s \<Rightarrow> x)"

definition obj_str :: "pdfobj \<Rightarrow> string" where
  "obj_str v = (case v of TextString s \<Rightarrow> s | OtherObject x s \<Rightarrow> s)"

text \<open>\<open>metadata.get(k, "")\<close> and \<open>str(metadata.get(k, ""))\<close>\<close>

definition metadata_get :: "(string \<times> pdfobj) list \<Rightarrow> string \<Rightarrow> pyval" where
  "metadata_get metadata k = (case map_of metadata k of None \<Rightarrow> PyStr [] | Some v \<Rightarrow> obj_val v)"

definition metadata_get_str :: "(string \<times> pdfobj) list \<Rightarrow> string \<Rightarrow> pyval" where
  "metadata_get_str metadata k =
     PyStr (case map_of metadata k of None \<Rightarrow> [] | Some v \<Rightarrow> obj_str v)"

text \<open>\<open>if pdf_reader.metadata:\<close> holds for a dictionary that is not empty.\<close>

definition metadata_truthy :: "(string \<times> pdfobj) list option \<Rightarrow> bool" where
  "metadata_truthy md = (case md of None \<Rightarrow> False | Some m \<Rightarrow> m \<noteq> [])"

definition metadata_dict :: "(string \<times> pdfobj) list \<Rightarrow> pydict" where
  "metadata_dict metadata =
     [(''title'', metadata_get metadata ''/Title''),
      (''author'', metadata_get metadata ''/Author''),
      (''subject'', metadata_get metadata ''/Subject''),
      (''creator'', metadata_get metadata ''/Creator''),
      (''producer'', metadata_get metadata ''/Producer''),
      (''creation_date'', metadata_get_str metadata ''/CreationDate''),
      (''modification_date'', metadata_get_str metadata ''/ModDate'')]"

definition get_pdf_info_try :: "env \<Rightarrow> string \<Rightarrow> exn + pydict" where
  "get_pdf_info_try e file_path =
     (if \<not> os_path_isabs e file_path then
        Inr (failure (''File path must be absolute path, got: '' @ file_path))
      else if \<not> os_path_exists e file_path then
        Inr (failure (''File not found: '' @ file_path))
      else
        (case open_rb e file_path of
           Inl x \<Rightarrow> Inl x
         | Inr file \<Rightarrow>
            (case PdfReader e file of
               Inl x \<Rightarrow> Inl x
             | Inr rd \<Rightarrow>
                (case reader_num_pages rd of
                   Inl x \<Rightarrow> Inl x
                 | Inr n \<Rightarrow>
                    (case reader_metadata rd of
                       Inl x \<Rightarrow> Inl x
                     | Inr md \<Rightarrow>
                        (let info = [(''success'', PyBool True),
                                     (''file_path'', PyStr file_path),
                                     (''page_count'', PyInt (int n)),
                                     (''metadata'', PyDict [])];
                             info = (if metadata_truthy md
                                     then AList.update ''metadata''
                                            (PyDict (metadata_dict (the md))) info
                                     else info)
                         in (case os_path_getsize e file_path of
                               Inl x \<Rightarrow> Inl x
                             | Inr sz \<Rightarrow>
                                 Inr (AList.update ''file_size'' (PyInt (int sz)) info))))))))"

definition get_pdf_info :: "env \<Rightarrow> string \<Rightarrow> exn + pydict" where
  "get_pdf_info e file_path =
     (case get_pdf_info_try e file_path of
        Inr info \<Rightarrow> Inr info
      | Inl (PermissionError m) \<Rightarrow>
          Inr (failure (''Permission denied accessing file: '' @ file_path @ ''. Error: '' @ m))
      | Inl (OtherException m) \<Rightarrow>
          Inr (failure (''Error getting PDF info: '' @ m)))"

section \<open>list_pdfs_in_directory\<close>

text \<open>The two calls of the per-file \<open>try\<close>, in the order of the source.\<close>

definition stat_file :: "env \<Rightarrow> string \<Rightarrow> exn + (nat \<times> real)" where
  "stat_file e full_path =
     (case os_path_getsize e full_path of
        Inl x \<Rightarrow> Inl x
      | Inr file_size \<Rightarrow>
         (case os_path_getmtime e full_path of
            Inl x \<Rightarrow> Inl x
          | Inr modification_time \<Rightarrow> Inr (file_size, modification_time)))"

text \<open>
  The entry appended for one file: by the \<open>try\<close> or by one of its two handlers.
  \<open>rootdir\<close> is the \<open>root\<close> of the source's loop, the directory being visited.
\<close>

definition pdf_entry :: "env \<Rightarrow> string \<Rightarrow> string \<Rightarrow> string \<Rightarrow> pydict" where
  "pdf_entry e directory_path rootdir file =
     (let full_path = os_path_abspath e (os_path_join e rootdir file);
          relative_path = os_path_relpath e full_path directory_path;
          entry = [(''filename'', PyStr file),
                   (''full_path'', PyStr full_path),
                   (''relative_path'', PyStr relative_path),
                   (''directory'', PyStr (os_path_abspath e rootdir))]
      in (case stat_file e full_path of
            Inr (file_size, modification_time) \<Rightarrow>
              entry @ [(''size'', PyInt (int file_size)),
                       (''modified'', PyFloat modification_time)]
          | Inl (PermissionError m) \<Rightarrow> entry @ [(''permission_error'', PyStr m)]
          | Inl (OtherException m) \<Rightarrow> entry @ [(''error'', PyStr m)]))"

text \<open>The inner loop, over the files of one directory, and the outer loop, over the walk.\<close>

fun scan_files :: "env \<Rightarrow> string \<Rightarrow> string \<Rightarrow> string list \<Rightarrow> pydict list \<Rightarrow> pydict list" where
  "scan_files e directory_path rootdir [] pdf_files = pdf_files"
| "scan_files e directory_path rootdir (file # rest) pdf_files =
     scan_files e directory_path rootdir rest
       (if endswith (lower file) ''.pdf''
        then pdf_files @ [pdf_entry e directory_path rootdir file]
        else pdf_files)"

fun scan_walk ::
  "env \<Rightarrow> string \<Rightarrow> (string \<times> string list \<times> string list) list \<Rightarrow> pydict list \<Rightarrow> pydict list"
where
  "scan_walk e directory_path [] pdf_files = pdf_files"
| "scan_walk e directory_path ((rootdir, dirs, files) # rest) pdf_files =
     scan_walk e directory_path rest (scan_files e directory_path rootdir files pdf_files)"

definition list_pdfs_in_directory_try :: "env \<Rightarrow> string \<Rightarrow> exn + pydict" where
  "list_pdfs_in_directory_try e directory_path =
     (if \<not> os_path_isabs e directory_path then
        Inr (failure (''Directory path must be absolute path, got: '' @ directory_path))
      else if \<not> os_path_exists e directory_path then
        Inr (failure (''Directory not found: '' @ directory_path))
      else if \<not> os_path_isdir e directory_path then
        Inr (failure (''Path is not a directory: '' @ directory_path))
      else
        (case os_walk e directory_path of
           Inl x \<Rightarrow> Inl x
         | Inr triples \<Rightarrow>
            (let pdf_files = scan_walk e directory_path triples []
             in Inr [(''success'', PyBool True),
                     (''search_directory'', PyStr directory_path),
                     (''pdf_count'', PyInt (int (length pdf_files))),
                     (''pdf_files'', PyList (map PyDict pdf_files))])))"

definition list_pdfs_in_directory :: "env \<Rightarrow> string \<Rightarrow> exn + pydict" where
  "list_pdfs_in_directory e directory_path =
     (case list_pdfs_in_directory_try e directory_path of
        Inr result \<Rightarrow> Inr result
      | Inl (PermissionError m) \<Rightarrow>
          Inr (failure (''Permission denied accessing directory: '' @ directory_path
                        @ ''. Error: '' @ m))
      | Inl (OtherException m) \<Rightarrow>
          Inr (failure (''Error listing PDFs: '' @ m)))"

section \<open>Calls of read_pdf_text in a process\<close>

text \<open>
  A call runs in a process, and what the process holds lives on from one call to the
  next: the files it has open and the variables of the module. What the operating
  system and the libraries answer may depend on that state (a limit on open files, a
  lock), so a world gives the answers for each state of the process.
\<close>

record process =
  open_files :: "string list"
  module_vars :: pydict

type_synonym world = "process \<Rightarrow> env"

text \<open>
  \<open>with pdfplumber.open(file_path) as pdf:\<close> holds the file from the successful
  open to the end of the block, and gives it back when the block is left, by its last
  statement or by an exception.
\<close>

definition enter_file :: "string \<Rightarrow> process \<Rightarrow> process" where
  "enter_file file_path s = s\<lparr>open_files := file_path # open_files s\<rparr>"

definition exit_file :: "string \<Rightarrow> process \<Rightarrow> process" where
  "exit_file file_path s = s\<lparr>open_files := remove1 file_path (open_files s)\<rparr>"

text \<open>The block of the \<open>with\<close>: lines 65 to 96 of the source.\<close>

definition read_pdf_text_block ::
  "pdf \<Rightarrow> pydict \<Rightarrow> int list option \<Rightarrow> bool \<Rightarrow> exn + pydict" where
  "read_pdf_text_block doc result page_numbers extract_tbls =
     (case pages doc of
        Inl x \<Rightarrow> Inl x
      | Inr pdf_pages \<Rightarrow>
         (let result = AList.update ''total_pages'' (PyInt (int (length pdf_pages))) result
          in (case process_pages pdf_pages extract_tbls
                     (pages_to_process page_numbers (length pdf_pages)) (result, []) of
                Inl x \<Rightarrow> Inl x
              | Inr (result, full_text_parts) \<Rightarrow>
                  Inr (AList.update ''full_text''
                         (PyStr (join newline2 full_text_parts)) result))))"

text \<open>The two handlers of the tool, lines 100 to 109.\<close>

definition read_pdf_text_except :: "string \<Rightarrow> exn \<Rightarrow> pydict" where
  "read_pdf_text_except file_path x =
     (case x of
        PermissionError m \<Rightarrow>
          failure (''Permission denied accessing file: '' @ file_path @ ''. Error: '' @ m)
      | OtherException m \<Rightarrow> failure (''Error reading PDF: '' @ m))"

text \<open>
  One call of the tool by a process in state \<open>s\<close>: what it returns or raises, and the
  state it leaves. The source assigns no module variable.
\<close>

definition read_pdf_text_call ::
  "world \<Rightarrow> process \<Rightarrow> string \<Rightarrow> int list option \<Rightarrow> bool \<Rightarrow> (exn + pydict) \<times> process" where
  "read_pdf_text_call w s file_path page_numbers extract_tbls =
     (if \<not> os_path_isabs (w s) file_path then
        (Inr (failure (''File path must be absolute path, got: '' @ file_path)), s)
      else if \<not> os_path_exists (w s) file_path then
        (Inr (failure (''File not found: '' @ file_path)), s)
      else if \<not> endswith (lower file_path) ''.pdf'' then
        (Inr (failure ''File must be a PDF''), s)
      else
        (let result = [(''success'', PyBool True),
                       (''file_path'', PyStr file_path),
                       (''pages'', PyList []),
                       (''total_pages'', PyInt 0),
                       (''full_text'', PyStr [])]
         in (case pdfplumber_open (w s) file_path of
               Inl x \<Rightarrow> (Inr (read_pdf_text_except file_path x), s)
             | Inr doc \<Rightarrow>
                (let s1 = enter_file file_path s;
                     outcome = read_pdf_text_block doc result page_numbers extract_tbls;
                     s2 = exit_file file_path s1
                 in (case outcome of
                       Inl x \<Rightarrow> (Inr (read_pdf_text_except file_path x), s2)
                     | Inr result \<Rightarrow> (Inr result, s2))))))"

section \<open>The properties in the words of the specification\<close>

text \<open>
  A name ends in \<open>.pdf\<close> whatever the case of its three letters. This is the
  specification's wording; the source tests \<open>name.lower().endswith('.pdf')\<close>.
\<close>

definition ends_pdf_ci :: "string \<Rightarrow> bool" where
  "ends_pdf_ci name =
     (case rev name of
        c3 # c2 # c1 # c0 # _ \<Rightarrow>
          c0 = CHR ''.'' \<and> (c1 = CHR ''p'' \<or> c1 = CHR ''P'')
            \<and> (c2 = CHR ''d'' \<or> c2 = CHR ''D'') \<and> (c3 = CHR ''f'' \<or> c3 = CHR ''F'')
      | _ \<Rightarrow> False)"

text \<open>The page numbers of a request that lie inside a document of \<open>n\<close> pages.\<close>

definition kept_numbers :: "int list \<Rightarrow> nat \<Rightarrow> int list" where
  "kept_numbers ps n = filter (\<lambda>p. 0 < p \<and> p \<le> int n) ps"

text \<open>
  The working page set, as the 1-based numbers of its pages in processing order: every
  page in ascending order when \<open>page_numbers\<close> is absent, the kept numbers in the
  caller's order otherwise.
\<close>

definition selected_numbers :: "int list option \<Rightarrow> nat \<Rightarrow> int list" where
  "selected_numbers page_numbers n =
     (case page_numbers of None \<Rightarrow> [1..int n] | Some ps \<Rightarrow> kept_numbers ps n)"

text \<open>The text of a page as the result reports it: empty when extraction yields nothing.\<close>

definition page_text :: "page \<Rightarrow> string" where
  "page_text pg = (case extract_text pg of Inr (Some t) \<Rightarrow> t | _ \<Rightarrow> [])"

text \<open>The metadata keys of the result, each with the key of the info dictionary it reads.\<close>

definition metadata_keys :: "(string \<times> string) list" where
  "metadata_keys =
     [(''title'', ''/Title''), (''author'', ''/Author''), (''subject'', ''/Subject''),
      (''creator'', ''/Creator''), (''producer'', ''/Producer''),
      (''creation_date'', ''/CreationDate''), (''modification_date'', ''/ModDate'')]"

text \<open>
  The files a walk finds whose names end in \<open>.pdf\<close>, each with its directory, in
  traversal order.
\<close>

definition found_pdfs :: "(string \<times> string list \<times> string list) list \<Rightarrow> (string \<times> string) list" where
  "found_pdfs triples =
     concat (map (\<lambda>(rootdir, dirs, files). map (Pair rootdir) (filter ends_pdf_ci files)) triples)"

text \<open>
  What the specification asks of the entry of one found file: its name and path, and
  either size and modification time, or \<open>permission_error\<close>, or \<open>error\<close>, by the
  outcome of the stat calls.
\<close>

definition entry_for :: "env \<Rightarrow> string \<times> string \<Rightarrow> pydict \<Rightarrow> bool" where
  "entry_for e found entry =
     (case found of (rootdir, file) \<Rightarrow>
        (let full_path = os_path_abspath e (os_path_join e rootdir file)
         in map_of entry ''filename'' = Some (PyStr file)
          \<and> map_of entry ''full_path'' = Some (PyStr full_path)
          \<and> (case stat_file e full_path of
                Inr (file_size, modification_time) \<Rightarrow>
                  map_of entry ''size'' = Some (PyInt (int file_size))
                  \<and> map_of entry ''modified'' = Some (PyFloat modification_time)
                  \<and> map_of entry ''permission_error'' = None
                  \<and> map_of entry ''error'' = None
              | Inl (PermissionError m) \<Rightarrow>
                  map_of entry ''permission_error'' = Some (PyStr m)
                  \<and> map_of entry ''size'' = None
                  \<and> map_of entry ''modified'' = None
                  \<and> map_of entry ''error'' = None
              | Inl (OtherException m) \<Rightarrow>
                  map_of entry ''error'' = Some (PyStr m)
                  \<and> map_of entry ''size'' = None
                  \<and> map_of entry ''modified'' = None
                  \<and> map_of entry ''permission_error'' = None)))"

section \<open>An example world\<close>

text \<open>
  A directory \<open>/docs\<close> with \<open>a.pdf\<close> (five pages, no info dictionary), \<open>b.PDF\<close>
  (not readable), \<open>c.txt\<close> and \<open>sub/d.pdf\<close> (its modification time cannot be read);
  the relative path \<open>a.pdf\<close> exists too, from the working directory. Walking the
  directories \<open>/private\<close> and \<open>/broken\<close> raises.
\<close>

definition example_page :: "string \<Rightarrow> page" where
  "example_page t = \<lparr>extract_text = Inr (Some t), extract_tables = Inr []\<rparr>"

definition example_pages :: "page list" where
  "example_pages =
     [example_page ''one'',
      \<lparr>extract_text = Inr None, extract_tables = Inl (OtherException ''bad table'')\<rparr>,
      example_page ''three'',
      example_page ''four'',
      \<lparr>extract_text = Inr (Some ''five''),
       extract_tables = Inr [[[Some ''a'', None], [Some ''b'', Some ''c'']]]\<rparr>]"

definition example_env :: env where
  "example_env =
     \<lparr>os_path_isabs = (\<lambda>p. take 1 p = ''/''),
      os_path_exists = (\<lambda>p. p \<in> set [''/docs'', ''/docs/a.pdf'', ''/docs/b.PDF'', ''/docs/c.txt'',
                                      ''/docs/sub'', ''/docs/sub/d.pdf'', ''a.pdf'',
                                      ''/private'', ''/broken'']),
      os_path_isdir = (\<lambda>p. p \<in> set [''/docs'', ''/docs/sub'', ''/private'', ''/broken'']),
      os_path_getsize = (\<lambda>p. if p = ''/docs/b.PDF''
                              then Inl (PermissionError ''[Errno 13] Permission denied'')
                              else Inr 2048),
      os_path_getmtime = (\<lambda>p. if p = ''/docs/sub/d.pdf''
                               then Inl (OtherException ''[Errno 5] Input/output error'')
                               else Inr 1700000000),
      os_path_abspath = (\<lambda>p. p),
      os_path_join = (\<lambda>a b. a @ ''/'' @ b),
      os_path_relpath = (\<lambda>p start. drop (length start + 1) p),
      os_walk = (\<lambda>p. if p = ''/docs''
                      then Inr [(''/docs'', [''sub''], [''a.pdf'', ''b.PDF'', ''c.txt'']),
                                (''/docs/sub'', [], [''d.pdf''])]
                      else if p = ''/private''
                      then Inl (PermissionError ''[Errno 13] Permission denied'')
                      else if p = ''/broken''
                      then Inl (OtherException ''[Errno 5] Input/output error'')
                      else Inr []),
      pdfplumber_open = (\<lambda>p. if p = ''/docs/a.pdf'' then Inr \<lparr>pages = Inr example_pages\<rparr>
                              else if p = ''/docs/b.PDF''
                              then Inl (PermissionError ''[Errno 13] Permission denied'')
                              else Inl (OtherException ''No /Root object'')),
      open_rb = (\<lambda>p. if p = ''/docs/b.PDF''
                      then Inl (PermissionError ''[Errno 13] Permission denied'')
                      else Inr p),
      PdfReader = (\<lambda>f. if f = ''/docs/a.pdf''
                        then Inr \<lparr>reader_num_pages = Inr 5, reader_metadata = Inr None\<rparr>
                        else if f = ''/docs/sub/d.pdf''
                        then Inr \<lparr>reader_num_pages = Inr 1,
                                  reader_metadata = Inr (Some [(''/Title'', TextString ''D''),
                                     (''/ModDate'', OtherObject (PyObj ''D:2024'') ''D:2024'')])\<rparr>
                        else Inl (OtherException ''EOF marker not found''))\<rparr>"

text \<open>
  A process with nothing open, and a world in which a process may hold one file at most:
  with a file open, every further open fails.
\<close>

definition example_process :: process where
  "example_process = \<lparr>open_files = [], module_vars = []\<rparr>"

definition example_world :: world where
  "example_world s =
     (if open_files s = [] then example_env
      else example_env
             \<lparr>pdfplumber_open := (\<lambda>p. Inl (OtherException ''[Errno 24] Too many open files''))\<rparr>)"

section \<open>Strings: the suffix test\<close>

lemma of_char_lower_char:
  "(of_char (lower_char c) :: nat) =
     (let n = of_char c in if 65 \<le> n \<and> n \<le> 90 then n + 32 else n)"
  by (simp add: lower_char_def Let_def)

lemma char_eq_of_char: "c = d \<longleftrightarrow> (of_char c :: nat) = of_char d"
  by simp

lemma lower_char_dot: "lower_char c = CHR ''.'' \<longleftrightarrow> c = CHR ''.''"
  unfolding char_eq_of_char [of _ "CHR ''.''"] of_char_lower_char
  by (auto simp: Let_def)

lemma lower_char_p: "lower_char c = CHR ''p'' \<longleftrightarrow> c = CHR ''p'' \<or> c = CHR ''P''"
  unfolding char_eq_of_char [of _ "CHR ''p''"] char_eq_of_char [of _ "CHR ''P''"]
    of_char_lower_char
  by (auto simp: Let_def)

lemma lower_char_d: "lower_char c = CHR ''d'' \<longleftrightarrow> c = CHR ''d'' \<or> c = CHR ''D''"
  unfolding char_eq_of_char [of _ "CHR ''d''"] char_eq_of_char [of _ "CHR ''D''"]
    of_char_lower_char
  by (auto simp: Let_def)

lemma lower_char_f: "lower_char c = CHR ''f'' \<longleftrightarrow> c = CHR ''f'' \<or> c = CHR ''F''"
  unfolding char_eq_of_char [of _ "CHR ''f''"] char_eq_of_char [of _ "CHR ''F''"]
    of_char_lower_char
  by (auto simp: Let_def)

lemmas lower_char_pdf = lower_char_dot lower_char_p lower_char_d lower_char_f

text \<open>The test of the source is the case-insensitive suffix test of the specification.\<close>

lemma endswith_lower_pdf: "endswith (lower s) ''.pdf'' = ends_pdf_ci s"
proof (cases s rule: rev_cases)
  case Nil
  then show ?thesis by (simp add: endswith_def lower_def ends_pdf_ci_def)
next
  case (snoc s3 c3)
  note s3 = this
  show ?thesis
  proof (cases s3 rule: rev_cases)
    case Nil
    with s3 show ?thesis by (simp add: endswith_def lower_def ends_pdf_ci_def)
  next
    case (snoc s2 c2)
    note s2 = this
    show ?thesis
    proof (cases s2 rule: rev_cases)
      case Nil
      with s3 s2 show ?thesis by (simp add: endswith_def lower_def ends_pdf_ci_def)
    next
      case (snoc s1 c1)
      note s1 = this
      show ?thesis
      proof (cases s1 rule: rev_cases)
        case Nil
        with s3 s2 s1 show ?thesis by (simp add: endswith_def lower_def ends_pdf_ci_def)
      next
        case (snoc s0 c0)
        with s3 s2 s1 show ?thesis
          by (simp add: endswith_def lower_def ends_pdf_ci_def lower_char_pdf)
      qed
    qed
  qed
qed

section \<open>Validation of read_pdf_text\<close>

text \<open>
  C5. \<open>read_pdf_text\<close> checks its path in the order absolute, exists, \<open>.pdf\<close>
  suffix (case-insensitive), and stops at the first check that fails: a relative path
  yields the not-absolute message whether or not it exists, an absolute path that does
  not exist the not-found message, and an absolute existing path without the suffix the
  not-a-PDF message.
\<close>

theorem read_pdf_text_validation_order:
  "(\<not> os_path_isabs e file_path \<longrightarrow>
      read_pdf_text e file_path page_numbers extract_tbls =
        Inr (failure (''File path must be absolute path, got: '' @ file_path)))
   \<and> (os_path_isabs e file_path \<and> \<not> os_path_exists e file_path \<longrightarrow>
      read_pdf_text e file_path page_numbers extract_tbls =
        Inr (failure (''File not found: '' @ file_path)))
   \<and> (os_path_isabs e file_path \<and> os_path_exists e file_path \<and> \<not> ends_pdf_ci file_path \<longrightarrow>
      read_pdf_text e file_path page_numbers extract_tbls = Inr (failure ''File must be a PDF''))"
  by (simp add: read_pdf_text_def read_pdf_text_try_def endswith_lower_pdf)

theorem read_pdf_text_validation_order_witness:
  "\<not> os_path_isabs example_env ''a.pdf'' \<and> os_path_exists example_env ''a.pdf''
   \<and> read_pdf_text example_env ''a.pdf'' None False =
       Inr [(''success'', PyBool False),
            (''error'', PyStr ''File path must be absolute path, got: a.pdf'')]
   \<and> os_path_isabs example_env ''/docs/x.pdf'' \<and> \<not> os_path_exists example_env ''/docs/x.pdf''
   \<and> read_pdf_text example_env ''/docs/x.pdf'' None False =
       Inr [(''success'', PyBool False), (''error'', PyStr ''File not found: /docs/x.pdf'')]
   \<and> os_path_isabs example_env ''/docs/c.txt'' \<and> os_path_exists example_env ''/docs/c.txt''
   \<and> \<not> ends_pdf_ci ''/docs/c.txt''
   \<and> read_pdf_text example_env ''/docs/c.txt'' None False =
       Inr [(''success'', PyBool False), (''error'', PyStr ''File must be a PDF'')]"
proof -
  have h1: "\<not> os_path_isabs example_env ''a.pdf''" "os_path_exists example_env ''a.pdf''"
    by (simp_all add: example_env_def)
  have h2: "os_path_isabs example_env ''/docs/x.pdf''"
    "\<not> os_path_exists example_env ''/docs/x.pdf''"
    by (simp_all add: example_env_def)
  have h3: "os_path_isabs example_env ''/docs/c.txt''"
    "os_path_exists example_env ''/docs/c.txt''" "\<not> ends_pdf_ci ''/docs/c.txt''"
    by (simp_all add: example_env_def ends_pdf_ci_def)
  show ?thesis
    using h1 h2 h3
      read_pdf_text_validation_order [of example_env "''a.pdf''" None False]
      read_pdf_text_validation_order [of example_env "''/docs/x.pdf''" None False]
      read_pdf_text_validation_order [of example_env "''/docs/c.txt''" None False]
    by (simp add: failure_def)
qed

section \<open>The page loop of read_pdf_text\<close>

lemma process_pages_Inr:
  "process_pages pgs et idxs (r, parts) = Inr (r', parts') \<Longrightarrow>
   \<exists>res. list_all2 (\<lambda>i x. process_page pgs et i = Inr x) idxs res
       \<and> r' = fold (\<lambda>x. dict_append ''pages'' (PyDict (fst x))) res r
       \<and> parts' = parts @ map snd res"
proof (induction idxs arbitrary: r parts)
  case Nil
  then show ?case by simp
next
  case (Cons i idxs)
  from Cons.prems obtain info ptext where
    step: "process_page pgs et i = Inr (info, ptext)" and
    rest: "process_pages pgs et idxs
             (dict_append ''pages'' (PyDict info) r, parts @ [ptext]) = Inr (r', parts')"
    by (auto split: sum.splits prod.splits)
  from Cons.IH [OF rest] obtain res where
    res: "list_all2 (\<lambda>i x. process_page pgs et i = Inr x) idxs res"
      "r' = fold (\<lambda>x. dict_append ''pages'' (PyDict (fst x))) res
              (dict_append ''pages'' (PyDict info) r)"
      "parts' = (parts @ [ptext]) @ map snd res"
    by blast
  show ?case
  proof (intro exI conjI)
    show "list_all2 (\<lambda>i x. process_page pgs et i = Inr x) (i # idxs) ((info, ptext) # res)"
      using step res(1) by simp
    show "r' = fold (\<lambda>x. dict_append ''pages'' (PyDict (fst x))) ((info, ptext) # res) r"
      using res(2) by simp
    show "parts' = parts @ map snd ((info, ptext) # res)"
      using res(3) by simp
  qed
qed

lemma process_pages_Inr_conv:
  "list_all2 (\<lambda>i x. process_page pgs et i = Inr x) idxs res \<Longrightarrow>
   process_pages pgs et idxs (r, parts) =
     Inr (fold (\<lambda>x. dict_append ''pages'' (PyDict (fst x))) res r, parts @ map snd res)"
proof (induction idxs res arbitrary: r parts rule: list_all2_induct)
  case Nil
  then show ?case by simp
next
  case (Cons i idxs x res)
  then show ?case by (cases x) simp
qed

lemma fold_dict_append:
  "map_of r ''pages'' = Some (PyList acc) \<Longrightarrow>
   fold (\<lambda>x. dict_append ''pages'' (PyDict (fst x))) res r =
     AList.update ''pages'' (PyList (acc @ map (\<lambda>x. PyDict (fst x)) res)) r"
proof (induction res arbitrary: r acc)
  case Nil
  then show ?case by (simp add: AList.update_triv)
next
  case (Cons x res)
  have "map_of (dict_append ''pages'' (PyDict (fst x)) r) ''pages''
          = Some (PyList (acc @ [PyDict (fst x)]))"
    using Cons.prems by (simp add: dict_append_def AList.update_conv')
  from Cons.IH [OF this] show ?case
    using Cons.prems by (simp add: dict_append_def)
qed

text \<open>Every result of the tool is a failure envelope or the success dictionary.\<close>

lemma read_pdf_text_cases:
  assumes "read_pdf_text e fp pn et = Inr r"
  shows "(\<exists>msg. r = failure msg) \<or>
         (\<exists>doc pgs res. os_path_isabs e fp \<and> os_path_exists e fp \<and> endswith (lower fp) ''.pdf''
            \<and> pdfplumber_open e fp = Inr doc \<and> pages doc = Inr pgs
            \<and> list_all2 (\<lambda>i x. process_page pgs et i = Inr x)
                 (pages_to_process pn (length pgs)) res
            \<and> r = [(''success'', PyBool True),
                   (''file_path'', PyStr fp),
                   (''pages'', PyList (map (\<lambda>x. PyDict (fst x)) res)),
                   (''total_pages'', PyInt (int (length pgs))),
                   (''full_text'', PyStr (join newline2 (map snd res)))])"
proof (cases "read_pdf_text_try e fp pn et")
  case (Inl x)
  with assms show ?thesis
    by (cases x) (auto simp: read_pdf_text_def)
next
  case (Inr r0)
  with assms have r0: "r0 = r" by (simp add: read_pdf_text_def)
  show ?thesis
  proof (cases "os_path_isabs e fp \<and> os_path_exists e fp \<and> endswith (lower fp) ''.pdf''")
    case False
    with Inr r0 show ?thesis
      by (auto simp: read_pdf_text_try_def split: if_splits)
  next
    case True
    with Inr r0 obtain doc pgs r1 parts where
      op: "pdfplumber_open e fp = Inr doc" and pg: "pages doc = Inr pgs" and
      pp: "process_pages pgs et (pages_to_process pn (length pgs))
             ([(''success'', PyBool True), (''file_path'', PyStr fp), (''pages'', PyList []),
               (''total_pages'', PyInt (int (length pgs))), (''full_text'', PyStr [])], [])
           = Inr (r1, parts)" and
      r: "r = AList.update ''full_text'' (PyStr (join newline2 parts)) r1"
      by (auto simp: read_pdf_text_try_def split: sum.splits prod.splits)
    from process_pages_Inr [OF pp] obtain res where
      res: "list_all2 (\<lambda>i x. process_page pgs et i = Inr x) (pages_to_process pn (length pgs)) res"
      and r1: "r1 = fold (\<lambda>x. dict_append ''pages'' (PyDict (fst x))) res
             [(''success'', PyBool True), (''file_path'', PyStr fp), (''pages'', PyList []),
               (''total_pages'', PyInt (int (length pgs))), (''full_text'', PyStr [])]"
      and parts: "parts = map snd res"
      by auto
    have "r1 = [(''success'', PyBool True), (''file_path'', PyStr fp),
                (''pages'', PyList (map (\<lambda>x. PyDict (fst x)) res)),
                (''total_pages'', PyInt (int (length pgs))), (''full_text'', PyStr [])]"
      unfolding r1 by (subst fold_dict_append [where acc = "[]"]) simp_all
    with r parts have "r = [(''success'', PyBool True),
                   (''file_path'', PyStr fp),
                   (''pages'', PyList (map (\<lambda>x. PyDict (fst x)) res)),
                   (''total_pages'', PyInt (int (length pgs))),
                   (''full_text'', PyStr (join newline2 (map snd res)))]"
      by simp
    with True op pg res show ?thesis by blast
  qed
qed

lemma process_page_Inr:
  assumes "process_page pgs et i = Inr (info, ptext)"
  shows "map_of info ''page_number'' = Some (PyInt (i + 1))"
    and "map_of info ''text'' = Some (PyStr ptext)"
  using assms
  by (auto simp: process_page_def add_tables_def Let_def AList.update_conv'
           split: sum.splits if_splits)


lemma process_page_index:
  assumes "process_page pgs et i = Inr (info, ptext)" "0 \<le> i"
  shows "i < int (length pgs)" and "ptext = page_text (pgs ! nat i)"
  using assms
  by (auto simp: process_page_def list_index_def page_text_def text_or_empty_def Let_def
           split: sum.splits if_splits option.splits)

lemma results_page_numbers:
  "list_all2 (\<lambda>i x. process_page pgs et i = Inr x) idxs res \<Longrightarrow>
   map (\<lambda>x. map_of (fst x) ''page_number'') res = map (\<lambda>i. Some (PyInt (i + 1))) idxs"
proof (induction idxs res rule: list_all2_induct)
  case Nil
  then show ?case by simp
next
  case (Cons i idxs x res)
  then show ?case by (cases x) (simp add: process_page_Inr)
qed

lemma results_texts:
  "list_all2 (\<lambda>i x. process_page pgs et i = Inr x) idxs res \<Longrightarrow>
   map (\<lambda>x. map_of (fst x) ''text'') res = map (\<lambda>x. Some (PyStr (snd x))) res"
proof (induction idxs res rule: list_all2_induct)
  case Nil
  then show ?case by simp
next
  case (Cons i idxs x res)
  then show ?case by (cases x) (simp add: process_page_Inr)
qed

lemma results_page_texts:
  "list_all2 (\<lambda>i x. process_page pgs et i = Inr x) idxs res \<Longrightarrow> \<forall>i\<in>set idxs. 0 \<le> i \<Longrightarrow>
   map snd res = map (\<lambda>i. page_text (pgs ! nat i)) idxs"
proof (induction idxs res rule: list_all2_induct)
  case Nil
  then show ?case by simp
next
  case (Cons i idxs x res)
  then show ?case by (cases x) (simp add: process_page_index)
qed

lemma upto_from_1: "map (\<lambda>i. int i + 1) [0..<n] = [1..int n]"
proof (induction n)
  case 0
  then show ?case by simp
next
  case (Suc n)
  have "[1..int (Suc n)] = [1..int n] @ [int n + 1]"
    by (simp add: upto_rec2)
  with Suc show ?case by simp
qed

lemma pages_to_process_numbers:
  "map (\<lambda>i. i + 1) (pages_to_process pn n) = selected_numbers pn n"
  by (cases pn)
     (simp_all add: pages_to_process_def selected_numbers_def kept_numbers_def upto_from_1 o_def)

lemma pages_to_process_nonneg: "\<forall>i\<in>set (pages_to_process pn n). 0 \<le> i"
  by (cases pn) (auto simp: pages_to_process_def)

lemma read_pdf_text_success:
  assumes "read_pdf_text e fp pn et = Inr r" "map_of r ''success'' = Some (PyBool True)"
  shows "\<exists>doc pgs res. os_path_isabs e fp \<and> os_path_exists e fp \<and> endswith (lower fp) ''.pdf''
            \<and> pdfplumber_open e fp = Inr doc \<and> pages doc = Inr pgs
            \<and> list_all2 (\<lambda>i x. process_page pgs et i = Inr x)
                 (pages_to_process pn (length pgs)) res
            \<and> r = [(''success'', PyBool True),
                   (''file_path'', PyStr fp),
                   (''pages'', PyList (map (\<lambda>x. PyDict (fst x)) res)),
                   (''total_pages'', PyInt (int (length pgs))),
                   (''full_text'', PyStr (join newline2 (map snd res)))]"
  using read_pdf_text_cases [OF assms(1)] assms(2) by (auto simp: failure_def)

text \<open>
  C2. In every successful result of \<open>read_pdf_text\<close>, \<open>total_pages\<close> is the number
  of pages of the opened document and \<open>pages\<close> holds exactly one dictionary per
  processed page, whose \<open>page_number\<close> values are, in this order: \<open>1, ..., total_pages\<close>
  when \<open>page_numbers\<close> is absent; otherwise the requested numbers \<open>p\<close> with
  \<open>0 < p \<le> total_pages\<close>, in the caller's order, the others dropped. The number
  reported is the page's number in the document, not its position in the result.
\<close>

theorem read_pdf_text_page_selection:
  assumes "read_pdf_text e file_path page_numbers extract_tbls = Inr r"
    and "map_of r ''success'' = Some (PyBool True)"
  shows "\<exists>doc pdf_pages infos.
           pdfplumber_open e file_path = Inr doc \<and> pages doc = Inr pdf_pages
         \<and> map_of r ''total_pages'' = Some (PyInt (int (length pdf_pages)))
         \<and> map_of r ''pages'' = Some (PyList (map PyDict infos))
         \<and> map (\<lambda>info. map_of info ''page_number'') infos =
             map (\<lambda>p. Some (PyInt p)) (selected_numbers page_numbers (length pdf_pages))"
proof -
  from read_pdf_text_success [OF assms] obtain doc pgs res where
    op: "pdfplumber_open e file_path = Inr doc" "pages doc = Inr pgs" and
    res: "list_all2 (\<lambda>i x. process_page pgs extract_tbls i = Inr x)
            (pages_to_process page_numbers (length pgs)) res" and
    r: "r = [(''success'', PyBool True),
             (''file_path'', PyStr file_path),
             (''pages'', PyList (map (\<lambda>x. PyDict (fst x)) res)),
             (''total_pages'', PyInt (int (length pgs))),
             (''full_text'', PyStr (join newline2 (map snd res)))]"
    by blast
  have "map (\<lambda>info. map_of info ''page_number'') (map fst res)
          = map (\<lambda>p. Some (PyInt p)) (map (\<lambda>i. i + 1) (pages_to_process page_numbers (length pgs)))"
    using results_page_numbers [OF res] by (simp add: o_def)
  then have nums: "map (\<lambda>info. map_of info ''page_number'') (map fst res)
          = map (\<lambda>p. Some (PyInt p)) (selected_numbers page_numbers (length pgs))"
    by (simp add: pages_to_process_numbers)
  have pgsr: "map_of r ''pages'' = Some (PyList (map PyDict (map fst res)))"
    and tot: "map_of r ''total_pages'' = Some (PyInt (int (length pgs)))"
    by (simp_all add: r o_def)
  from op tot pgsr nums show ?thesis by blast
qed

theorem read_pdf_text_page_selection_witness:
  "read_pdf_text example_env ''/docs/a.pdf'' (Some [3, 1]) False =
     Inr [(''success'', PyBool True), (''file_path'', PyStr ''/docs/a.pdf''),
          (''pages'', PyList [PyDict [(''page_number'', PyInt 3), (''text'', PyStr ''three'')],
                             PyDict [(''page_number'', PyInt 1), (''text'', PyStr ''one'')]]),
          (''total_pages'', PyInt 5),
          (''full_text'', PyStr [CHR ''t'', CHR ''h'', CHR ''r'', CHR ''e'', CHR ''e'',
                                  CHR 0x0A, CHR 0x0A, CHR ''o'', CHR ''n'', CHR ''e''])]
   \<and> (\<exists>infos. [PyDict [(''page_number'', PyInt 3), (''text'', PyStr ''three'')],
                PyDict [(''page_number'', PyInt 1), (''text'', PyStr ''one'')]] = map PyDict infos
        \<and> map (\<lambda>info. map_of info ''page_number'') infos = [Some (PyInt 3), Some (PyInt 1)])"
proof -
  let ?r = "[(''success'', PyBool True), (''file_path'', PyStr ''/docs/a.pdf''),
          (''pages'', PyList [PyDict [(''page_number'', PyInt 3), (''text'', PyStr ''three'')],
                             PyDict [(''page_number'', PyInt 1), (''text'', PyStr ''one'')]]),
          (''total_pages'', PyInt 5),
          (''full_text'', PyStr [CHR ''t'', CHR ''h'', CHR ''r'', CHR ''e'', CHR ''e'',
                                  CHR 0x0A, CHR 0x0A, CHR ''o'', CHR ''n'', CHR ''e''])]"
  have run: "read_pdf_text example_env ''/docs/a.pdf'' (Some [3, 1]) False = Inr ?r"
    by code_simp
  have ok: "map_of ?r ''success'' = Some (PyBool True)"
    by simp
  have op: "pdfplumber_open example_env ''/docs/a.pdf'' = Inr \<lparr>pages = Inr example_pages\<rparr>"
    by (simp add: example_env_def)
  have len: "length example_pages = 5"
    by (simp add: example_pages_def)
  from read_pdf_text_page_selection [OF run ok] op len
  have "\<exists>infos. [PyDict [(''page_number'', PyInt 3), (''text'', PyStr ''three'')],
            PyDict [(''page_number'', PyInt 1), (''text'', PyStr ''one'')]] = map PyDict infos
         \<and> map (\<lambda>info. map_of info ''page_number'') infos = [Some (PyInt 3), Some (PyInt 1)]"
    by (auto simp: selected_numbers_def kept_numbers_def)
  with run show ?thesis by (rule conjI)
qed

section \<open>Repeated page numbers\<close>

lemma count_kept:
  "0 < p \<Longrightarrow> p \<le> int n \<Longrightarrow> length (filter (\<lambda>q. q = p) (kept_numbers ps n)) = count_list ps p"
  by (induction ps) (auto simp: kept_numbers_def)

text \<open>
  C9. When \<open>page_numbers\<close> is given, the successful result has one dictionary per
  occurrence of each valid number, in the caller's order: a valid number \<open>p\<close> is the
  \<open>page_number\<close> of exactly as many dictionaries as it occurs in the request, and
  \<open>full_text\<close> joins the text of page \<open>p\<close> once per occurrence, in that order.
\<close>

theorem read_pdf_text_duplicates:
  assumes "read_pdf_text e file_path (Some ps) extract_tbls = Inr r"
    and "map_of r ''success'' = Some (PyBool True)"
  shows "\<exists>doc pdf_pages infos.
           pdfplumber_open e file_path = Inr doc \<and> pages doc = Inr pdf_pages
         \<and> map_of r ''pages'' = Some (PyList (map PyDict infos))
         \<and> map (\<lambda>info. map_of info ''page_number'') infos =
             map (\<lambda>p. Some (PyInt p)) (kept_numbers ps (length pdf_pages))
         \<and> (\<forall>p. 0 < p \<and> p \<le> int (length pdf_pages) \<longrightarrow>
               length (filter (\<lambda>info. map_of info ''page_number'' = Some (PyInt p)) infos)
                 = count_list ps p)
         \<and> map_of r ''full_text'' =
             Some (PyStr (join newline2
                     (map (\<lambda>p. page_text (pdf_pages ! nat (p - 1)))
                        (kept_numbers ps (length pdf_pages)))))"
proof -
  from read_pdf_text_success [OF assms] obtain doc pgs res where
    op: "pdfplumber_open e file_path = Inr doc" "pages doc = Inr pgs" and
    res: "list_all2 (\<lambda>i x. process_page pgs extract_tbls i = Inr x)
            (pages_to_process (Some ps) (length pgs)) res" and
    r: "r = [(''success'', PyBool True),
             (''file_path'', PyStr file_path),
             (''pages'', PyList (map (\<lambda>x. PyDict (fst x)) res)),
             (''total_pages'', PyInt (int (length pgs))),
             (''full_text'', PyStr (join newline2 (map snd res)))]"
    by blast
  let ?infos = "map fst res"
  let ?kept = "kept_numbers ps (length pgs)"
  have pg: "map_of r ''pages'' = Some (PyList (map PyDict ?infos))"
    by (simp add: r o_def)
  have "map (\<lambda>info. map_of info ''page_number'') ?infos
          = map (\<lambda>p. Some (PyInt p)) (map (\<lambda>i. i + 1) (pages_to_process (Some ps) (length pgs)))"
    using results_page_numbers [OF res] by (simp add: o_def)
  then have nums: "map (\<lambda>info. map_of info ''page_number'') ?infos
                     = map (\<lambda>p. Some (PyInt p)) ?kept"
    by (simp add: pages_to_process_numbers selected_numbers_def)
  have cnt: "\<forall>p. 0 < p \<and> p \<le> int (length pgs) \<longrightarrow>
               length (filter (\<lambda>info. map_of info ''page_number'' = Some (PyInt p)) ?infos)
                 = count_list ps p"
  proof (intro allI impI)
    fix p
    assume p: "0 < p \<and> p \<le> int (length pgs)"
    have "length (filter (\<lambda>info. map_of info ''page_number'' = Some (PyInt p)) ?infos)
            = length (filter (\<lambda>v. v = Some (PyInt p))
                        (map (\<lambda>info. map_of info ''page_number'') ?infos))"
      by (simp only: filter_map length_map o_def)
    also have "\<dots> = length (filter (\<lambda>v. v = Some (PyInt p)) (map (\<lambda>p. Some (PyInt p)) ?kept))"
      by (simp only: nums)
    also have "\<dots> = length (filter (\<lambda>q. q = p) ?kept)"
      by (simp add: filter_map o_def)
    also have "\<dots> = count_list ps p"
      using p by (simp add: count_kept)
    finally show "length (filter (\<lambda>info. map_of info ''page_number'' = Some (PyInt p)) ?infos)
            = count_list ps p" .
  qed
  have "map snd res = map (\<lambda>i. page_text (pgs ! nat i)) (pages_to_process (Some ps) (length pgs))"
    using results_page_texts [OF res pages_to_process_nonneg] .
  also have "\<dots> = map (\<lambda>p. page_text (pgs ! nat (p - 1))) ?kept"
    by (simp add: pages_to_process_def kept_numbers_def o_def)
  finally have "map_of r ''full_text'' =
             Some (PyStr (join newline2 (map (\<lambda>p. page_text (pgs ! nat (p - 1))) ?kept)))"
    by (simp add: r)
  with op pg nums cnt show ?thesis by blast
qed

theorem read_pdf_text_duplicates_witness:
  "read_pdf_text example_env ''/docs/a.pdf'' (Some [3, 3, 1]) False =
     Inr [(''success'', PyBool True), (''file_path'', PyStr ''/docs/a.pdf''),
          (''pages'', PyList [PyDict [(''page_number'', PyInt 3), (''text'', PyStr ''three'')],
                             PyDict [(''page_number'', PyInt 3), (''text'', PyStr ''three'')],
                             PyDict [(''page_number'', PyInt 1), (''text'', PyStr ''one'')]]),
          (''total_pages'', PyInt 5),
          (''full_text'', PyStr (''three'' @ newline2 @ ''three'' @ newline2 @ ''one''))]
   \<and> (\<exists>infos. [PyDict [(''page_number'', PyInt 3), (''text'', PyStr ''three'')],
                PyDict [(''page_number'', PyInt 3), (''text'', PyStr ''three'')],
                PyDict [(''page_number'', PyInt 1), (''text'', PyStr ''one'')]] = map PyDict infos
        \<and> length (filter (\<lambda>info. map_of info ''page_number'' = Some (PyInt 3)) infos) = 2)"
proof -
  let ?r = "[(''success'', PyBool True), (''file_path'', PyStr ''/docs/a.pdf''),
          (''pages'', PyList [PyDict [(''page_number'', PyInt 3), (''text'', PyStr ''three'')],
                             PyDict [(''page_number'', PyInt 3), (''text'', PyStr ''three'')],
                             PyDict [(''page_number'', PyInt 1), (''text'', PyStr ''one'')]]),
          (''total_pages'', PyInt 5),
          (''full_text'', PyStr (''three'' @ newline2 @ ''three'' @ newline2 @ ''one''))]"
  have run: "read_pdf_text example_env ''/docs/a.pdf'' (Some [3, 3, 1]) False = Inr ?r"
    by code_simp
  have ok: "map_of ?r ''success'' = Some (PyBool True)"
    by simp
  have op: "pdfplumber_open example_env ''/docs/a.pdf'' = Inr \<lparr>pages = Inr example_pages\<rparr>"
    by (simp add: example_env_def)
  have len: "length example_pages = 5"
    by (simp add: example_pages_def)
  from read_pdf_text_duplicates [OF run ok] obtain doc pgs infos where
    d: "pdfplumber_open example_env ''/docs/a.pdf'' = Inr doc" "pages doc = Inr pgs"
      "map_of ?r ''pages'' = Some (PyList (map PyDict infos))"
      "\<forall>p. 0 < p \<and> p \<le> int (length pgs) \<longrightarrow>
          length (filter (\<lambda>info. map_of info ''page_number'' = Some (PyInt p)) infos)
            = count_list [3, 3, 1] p"
    by blast
  from d(1,2) op have "pgs = example_pages" by auto
  with d(4) len have "length (filter (\<lambda>info. map_of info ''page_number'' = Some (PyInt 3)) infos)
                        = count_list [3, 3, 1] (3::int)"
    by simp
  then have cnt: "length (filter (\<lambda>info. map_of info ''page_number'' = Some (PyInt 3)) infos) = 2"
    by simp
  from d(3) have "[PyDict [(''page_number'', PyInt 3), (''text'', PyStr ''three'')],
                PyDict [(''page_number'', PyInt 3), (''text'', PyStr ''three'')],
                PyDict [(''page_number'', PyInt 1), (''text'', PyStr ''one'')]] = map PyDict infos"
    by simp
  from this cnt have "[PyDict [(''page_number'', PyInt 3), (''text'', PyStr ''three'')],
                PyDict [(''page_number'', PyInt 3), (''text'', PyStr ''three'')],
                PyDict [(''page_number'', PyInt 1), (''text'', PyStr ''one'')]] = map PyDict infos
        \<and> length (filter (\<lambda>info. map_of info ''page_number'' = Some (PyInt 3)) infos) = 2"
    by (rule conjI)
  then have "\<exists>infos. [PyDict [(''page_number'', PyInt 3), (''text'', PyStr ''three'')],
                PyDict [(''page_number'', PyInt 3), (''text'', PyStr ''three'')],
                PyDict [(''page_number'', PyInt 1), (''text'', PyStr ''one'')]] = map PyDict infos
        \<and> length (filter (\<lambda>info. map_of info ''page_number'' = Some (PyInt 3)) infos) = 2"
    by (rule exI)
  with run show ?thesis by (rule conjI)
qed

section \<open>The shape of the results\<close>

text \<open>Every result of the other two tools is a failure envelope or the success dictionary.\<close>

lemma get_pdf_info_cases:
  assumes "get_pdf_info e fp = Inr r"
  shows "(\<exists>msg. r = failure msg) \<or>
         (\<exists>file rd n md sz. os_path_isabs e fp \<and> os_path_exists e fp
            \<and> open_rb e fp = Inr file \<and> PdfReader e file = Inr rd
            \<and> reader_num_pages rd = Inr n \<and> reader_metadata rd = Inr md
            \<and> os_path_getsize e fp = Inr sz
            \<and> r = [(''success'', PyBool True),
                   (''file_path'', PyStr fp),
                   (''page_count'', PyInt (int n)),
                   (''metadata'', PyDict (if metadata_truthy md then metadata_dict (the md) else [])),
                   (''file_size'', PyInt (int sz))])"
proof (cases "get_pdf_info_try e fp")
  case (Inl x)
  with assms show ?thesis
    by (cases x) (auto simp: get_pdf_info_def)
next
  case (Inr r0)
  with assms have "r0 = r" by (simp add: get_pdf_info_def)
  with Inr show ?thesis
    by (auto simp: get_pdf_info_try_def Let_def split: if_splits sum.splits)
qed

lemma list_pdfs_in_directory_cases:
  assumes "list_pdfs_in_directory e d = Inr r"
  shows "(\<exists>msg. r = failure msg) \<or>
         (\<exists>triples. os_path_isabs e d \<and> os_path_exists e d \<and> os_path_isdir e d
            \<and> os_walk e d = Inr triples
            \<and> r = [(''success'', PyBool True),
                   (''search_directory'', PyStr d),
                   (''pdf_count'', PyInt (int (length (scan_walk e d triples [])))),
                   (''pdf_files'', PyList (map PyDict (scan_walk e d triples [])))])"
proof (cases "list_pdfs_in_directory_try e d")
  case (Inl x)
  with assms show ?thesis
    by (cases x) (auto simp: list_pdfs_in_directory_def)
next
  case (Inr r0)
  with assms have "r0 = r" by (simp add: list_pdfs_in_directory_def)
  with Inr show ?thesis
    by (auto simp: list_pdfs_in_directory_try_def Let_def split: if_splits sum.splits)
qed

lemma read_pdf_text_envelope:
  assumes "read_pdf_text e p pn et = Inr r"
  shows "(map_of r ''success'' = Some (PyBool False) \<or> map_of r ''success'' = Some (PyBool True))
   \<and> (map_of r ''success'' = Some (PyBool False) \<longrightarrow> map fst r = [''success'', ''error''])
   \<and> (map_of r ''success'' = Some (PyBool True) \<longrightarrow> map_of r ''error'' = None)"
  using read_pdf_text_cases [OF assms]
  by (elim disjE exE conjE) (simp_all add: failure_def)

lemma get_pdf_info_envelope:
  assumes "get_pdf_info e p = Inr r"
  shows "(map_of r ''success'' = Some (PyBool False) \<or> map_of r ''success'' = Some (PyBool True))
   \<and> (map_of r ''success'' = Some (PyBool False) \<longrightarrow> map fst r = [''success'', ''error''])
   \<and> (map_of r ''success'' = Some (PyBool True) \<longrightarrow> map_of r ''error'' = None)"
  using get_pdf_info_cases [OF assms]
  by (elim disjE exE conjE) (simp_all add: failure_def)

lemma list_pdfs_in_directory_envelope:
  assumes "list_pdfs_in_directory e p = Inr r"
  shows "(map_of r ''success'' = Some (PyBool False) \<or> map_of r ''success'' = Some (PyBool True))
   \<and> (map_of r ''success'' = Some (PyBool False) \<longrightarrow> map fst r = [''success'', ''error''])
   \<and> (map_of r ''success'' = Some (PyBool True) \<longrightarrow> map_of r ''error'' = None)"
  using list_pdfs_in_directory_cases [OF assms]
  by (elim disjE exE conjE) (simp_all add: failure_def)

text \<open>
  C8. Every dictionary returned by one of the three tools has \<open>success\<close> set to
  \<open>False\<close> or \<open>True\<close>. When it is \<open>False\<close> the keys are exactly \<open>success\<close> and
  \<open>error\<close>; when it is \<open>True\<close> there is no \<open>error\<close> key.
\<close>

theorem result_envelope:
  "(read_pdf_text e p page_numbers extract_tbls = Inr r
      \<or> get_pdf_info e p = Inr r \<or> list_pdfs_in_directory e p = Inr r) \<longrightarrow>
   (map_of r ''success'' = Some (PyBool False) \<or> map_of r ''success'' = Some (PyBool True))
   \<and> (map_of r ''success'' = Some (PyBool False) \<longrightarrow> map fst r = [''success'', ''error''])
   \<and> (map_of r ''success'' = Some (PyBool True) \<longrightarrow> map_of r ''error'' = None)"
proof
  assume "read_pdf_text e p page_numbers extract_tbls = Inr r
      \<or> get_pdf_info e p = Inr r \<or> list_pdfs_in_directory e p = Inr r"
  then show "(map_of r ''success'' = Some (PyBool False) \<or> map_of r ''success'' = Some (PyBool True))
   \<and> (map_of r ''success'' = Some (PyBool False) \<longrightarrow> map fst r = [''success'', ''error''])
   \<and> (map_of r ''success'' = Some (PyBool True) \<longrightarrow> map_of r ''error'' = None)"
  proof (elim disjE)
    assume "read_pdf_text e p page_numbers extract_tbls = Inr r"
    then show ?thesis by (rule read_pdf_text_envelope)
  next
    assume "get_pdf_info e p = Inr r"
    then show ?thesis by (rule get_pdf_info_envelope)
  next
    assume "list_pdfs_in_directory e p = Inr r"
    then show ?thesis by (rule list_pdfs_in_directory_envelope)
  qed
qed

theorem result_envelope_witness:
  "read_pdf_text example_env ''/docs/c.txt'' None False =
     Inr [(''success'', PyBool False), (''error'', PyStr ''File must be a PDF'')]
   \<and> map fst [(''success'', PyBool False), (''error'', PyStr ''File must be a PDF'')]
       = [''success'', ''error'']
   \<and> get_pdf_info example_env ''/docs/a.pdf'' =
     Inr [(''success'', PyBool True), (''file_path'', PyStr ''/docs/a.pdf''),
          (''page_count'', PyInt 5), (''metadata'', PyDict []), (''file_size'', PyInt 2048)]
   \<and> map_of [(''success'', PyBool True), (''file_path'', PyStr ''/docs/a.pdf''),
          (''page_count'', PyInt 5), (''metadata'', PyDict []), (''file_size'', PyInt 2048)]
        ''error'' = None"
proof -
  let ?r1 = "[(''success'', PyBool False), (''error'', PyStr ''File must be a PDF'')]"
  let ?r2 = "[(''success'', PyBool True), (''file_path'', PyStr ''/docs/a.pdf''),
          (''page_count'', PyInt 5), (''metadata'', PyDict []), (''file_size'', PyInt 2048)]"
  have run1: "read_pdf_text example_env ''/docs/c.txt'' None False = Inr ?r1"
    by code_simp
  have run2: "get_pdf_info example_env ''/docs/a.pdf'' = Inr ?r2"
    by code_simp
  have f: "map_of ?r1 ''success'' = Some (PyBool False)"
    and t: "map_of ?r2 ''success'' = Some (PyBool True)"
    by simp_all
  from result_envelope [of example_env "''/docs/c.txt''" None False ?r1] run1 f
  have c1: "map fst ?r1 = [''success'', ''error'']"
    by (simp only: simp_thms)
  from result_envelope [of example_env "''/docs/a.pdf''" None False ?r2] run2 t
  have c2: "map_of ?r2 ''error'' = None"
    by (simp only: simp_thms)
  from run1 c1 run2 c2 show ?thesis by (intro conjI)
qed

section \<open>The metadata of get_pdf_info\<close>

text \<open>
  C1, as stated, fails: for a document without an info dictionary (\<open>/docs/a.pdf\<close> of
  the example world, whose \<open>metadata\<close> is \<open>None\<close>) the call succeeds and the
  \<open>metadata\<close> of the result is the empty dictionary, so \<open>title\<close> and the other keys
  are missing rather than mapped to the empty string.
\<close>

theorem get_pdf_info_no_metadata_counterexample:
  "reader_metadata \<lparr>reader_num_pages = Inr 5, reader_metadata = Inr None\<rparr> = Inr None
   \<and> get_pdf_info example_env ''/docs/a.pdf'' =
     Inr [(''success'', PyBool True), (''file_path'', PyStr ''/docs/a.pdf''),
          (''page_count'', PyInt 5), (''metadata'', PyDict []), (''file_size'', PyInt 2048)]
   \<and> map_of ([] :: pydict) ''title'' = None"
  by code_simp

lemma metadata_dict_keys: "map fst (metadata_dict m) = map fst metadata_keys"
  by (simp add: metadata_dict_def metadata_keys_def)

lemma metadata_dict_absent:
  "\<forall>(k, pk) \<in> set metadata_keys. map_of m pk = None \<longrightarrow> map_of (metadata_dict m) k = Some (PyStr [])"
  by (simp add: metadata_dict_def metadata_keys_def metadata_get_def metadata_get_str_def)

text \<open>
  C1, amended. In every successful result of \<open>get_pdf_info\<close>, \<open>metadata\<close> is a
  dictionary: empty when the document has no info dictionary or an empty one (the
  source fills it only under \<open>if pdf_reader.metadata:\<close>); otherwise it has exactly the
  seven keys \<open>title\<close>, \<open>author\<close>, \<open>subject\<close>, \<open>creator\<close>, \<open>producer\<close>,
  \<open>creation_date\<close>, \<open>modification_date\<close>, and each key whose entry is absent from
  the info dictionary maps to the empty string.
\<close>

theorem get_pdf_info_metadata:
  assumes "get_pdf_info e file_path = Inr r"
    and "map_of r ''success'' = Some (PyBool True)"
  shows "\<exists>file rd md d.
           open_rb e file_path = Inr file \<and> PdfReader e file = Inr rd
         \<and> reader_metadata rd = Inr md
         \<and> map_of r ''metadata'' = Some (PyDict d)
         \<and> (case md of
               None \<Rightarrow> d = []
             | Some m \<Rightarrow>
                 if m = [] then d = []
                 else map fst d = map fst metadata_keys
                    \<and> (\<forall>(k, pk) \<in> set metadata_keys.
                          map_of m pk = None \<longrightarrow> map_of d k = Some (PyStr [])))"
proof -
  from get_pdf_info_cases [OF assms(1)] assms(2) obtain fh rd n md sz where
    op: "open_rb e file_path = Inr fh" "PdfReader e fh = Inr rd"
      "reader_metadata rd = Inr md" and
    r: "r = [(''success'', PyBool True),
             (''file_path'', PyStr file_path),
             (''page_count'', PyInt (int n)),
             (''metadata'', PyDict (if metadata_truthy md then metadata_dict (the md) else [])),
             (''file_size'', PyInt (int sz))]"
    by (auto simp: failure_def)
  let ?d = "if metadata_truthy md then metadata_dict (the md) else []"
  have m: "map_of r ''metadata'' = Some (PyDict ?d)"
    by (simp add: r)
  have c: "(case md of
               None \<Rightarrow> ?d = []
             | Some m \<Rightarrow>
                 if m = [] then ?d = []
                 else map fst ?d = map fst metadata_keys
                    \<and> (\<forall>(k, pk) \<in> set metadata_keys.
                          map_of m pk = None \<longrightarrow> map_of ?d k = Some (PyStr [])))"
  proof (cases md)
    case None
    then show ?thesis by (simp add: metadata_truthy_def)
  next
    case (Some m)
    show ?thesis
    proof (cases "m = []")
      case True
      with Some show ?thesis by (simp add: metadata_truthy_def)
    next
      case False
      with Some have "?d = metadata_dict m" by (simp add: metadata_truthy_def)
      with Some False show ?thesis
        using metadata_dict_keys [of m] metadata_dict_absent [of m] by simp
    qed
  qed
  from op m c show ?thesis by (intro exI conjI)
qed


theorem get_pdf_info_metadata_witness:
  "get_pdf_info example_env ''/docs/sub/d.pdf'' =
     Inr [(''success'', PyBool True), (''file_path'', PyStr ''/docs/sub/d.pdf''),
          (''page_count'', PyInt 1),
          (''metadata'',
           PyDict [(''title'', PyStr ''D''), (''author'', PyStr []), (''subject'', PyStr []),
                   (''creator'', PyStr []), (''producer'', PyStr []),
                   (''creation_date'', PyStr []), (''modification_date'', PyStr ''D:2024'')]),
          (''file_size'', PyInt 2048)]
   \<and> map fst [(''title'', PyStr ''D''), (''author'', PyStr []), (''subject'', PyStr []),
               (''creator'', PyStr []), (''producer'', PyStr []),
               (''creation_date'', PyStr []), (''modification_date'', PyStr ''D:2024'')]
       = map fst metadata_keys"
proof -
  let ?d = "[(''title'', PyStr ''D''), (''author'', PyStr []), (''subject'', PyStr []),
             (''creator'', PyStr []), (''producer'', PyStr []),
             (''creation_date'', PyStr []), (''modification_date'', PyStr ''D:2024'')]"
  let ?r = "[(''success'', PyBool True), (''file_path'', PyStr ''/docs/sub/d.pdf''),
            (''page_count'', PyInt 1), (''metadata'', PyDict ?d), (''file_size'', PyInt 2048)]"
  have run: "get_pdf_info example_env ''/docs/sub/d.pdf'' = Inr ?r"
    by code_simp
  have ok: "map_of ?r ''success'' = Some (PyBool True)"
    by simp
  from get_pdf_info_metadata [OF run ok] obtain fh rd md d where
    w: "open_rb example_env ''/docs/sub/d.pdf'' = Inr fh" "PdfReader example_env fh = Inr rd"
      "reader_metadata rd = Inr md" "map_of ?r ''metadata'' = Some (PyDict d)"
      "(case md of
          None \<Rightarrow> d = []
        | Some m \<Rightarrow>
            if m = [] then d = []
            else map fst d = map fst metadata_keys
               \<and> (\<forall>(k, pk) \<in> set metadata_keys.
                     map_of m pk = None \<longrightarrow> map_of d k = Some (PyStr [])))"
    by blast
  from w(4) have d: "d = ?d" by simp
  from w(1) have fh: "fh = ''/docs/sub/d.pdf''" by (simp add: example_env_def)
  from w(2) fh have "rd = \<lparr>reader_num_pages = Inr 1,
                            reader_metadata = Inr (Some [(''/Title'', TextString ''D''),
                                       (''/ModDate'', OtherObject (PyObj ''D:2024'') ''D:2024'')])\<rparr>"
    by (simp add: example_env_def)
  with w(3) have "md = Some [(''/Title'', TextString ''D''),
                             (''/ModDate'', OtherObject (PyObj ''D:2024'') ''D:2024'')]"
    by simp
  with w(5) have "map fst d = map fst metadata_keys"
    by simp
  with d have "map fst ?d = map fst metadata_keys"
    by (simp only:)
  with run show ?thesis by (rule conjI)
qed

section \<open>Validation of get_pdf_info\<close>

text \<open>
  C7. \<open>get_pdf_info\<close> checks only that the path is absolute and exists. For every such
  path, whatever its suffix, the file is opened and handed to the parser; the result is
  never the not-a-PDF validation failure, and an exception of the open or of the parser
  (on construction, on counting the pages or on reading the metadata; other than a
  permission error) comes back as the generic \<open>Error getting PDF info: ...\<close> failure.
\<close>

theorem get_pdf_info_no_suffix_check:
  assumes "os_path_isabs e file_path" and "os_path_exists e file_path"
  shows "get_pdf_info e file_path \<noteq> Inr (failure ''File must be a PDF'')
       \<and> (\<forall>m. open_rb e file_path = Inl (OtherException m) \<longrightarrow>
              get_pdf_info e file_path = Inr (failure (''Error getting PDF info: '' @ m)))
       \<and> (\<forall>fh m. open_rb e file_path = Inr fh \<and> PdfReader e fh = Inl (OtherException m) \<longrightarrow>
              get_pdf_info e file_path = Inr (failure (''Error getting PDF info: '' @ m)))
       \<and> (\<forall>fh rd m. open_rb e file_path = Inr fh \<and> PdfReader e fh = Inr rd
              \<and> reader_num_pages rd = Inl (OtherException m) \<longrightarrow>
              get_pdf_info e file_path = Inr (failure (''Error getting PDF info: '' @ m)))
       \<and> (\<forall>fh rd n m. open_rb e file_path = Inr fh \<and> PdfReader e fh = Inr rd
              \<and> reader_num_pages rd = Inr n \<and> reader_metadata rd = Inl (OtherException m) \<longrightarrow>
              get_pdf_info e file_path = Inr (failure (''Error getting PDF info: '' @ m)))"
proof (intro conjI allI impI)
  show "get_pdf_info e file_path \<noteq> Inr (failure ''File must be a PDF'')"
    using assms
    by (simp add: get_pdf_info_def get_pdf_info_try_def failure_def Let_def
             split: sum.splits exn.splits)
next
  fix m
  assume "open_rb e file_path = Inl (OtherException m)"
  with assms show "get_pdf_info e file_path = Inr (failure (''Error getting PDF info: '' @ m))"
    by (simp add: get_pdf_info_def get_pdf_info_try_def)
next
  fix fh m
  assume "open_rb e file_path = Inr fh \<and> PdfReader e fh = Inl (OtherException m)"
  with assms show "get_pdf_info e file_path = Inr (failure (''Error getting PDF info: '' @ m))"
    by (simp add: get_pdf_info_def get_pdf_info_try_def)
next
  fix fh rd m
  assume "open_rb e file_path = Inr fh \<and> PdfReader e fh = Inr rd
            \<and> reader_num_pages rd = Inl (OtherException m)"
  with assms show "get_pdf_info e file_path = Inr (failure (''Error getting PDF info: '' @ m))"
    by (simp add: get_pdf_info_def get_pdf_info_try_def)
next
  fix fh rd n m
  assume "open_rb e file_path = Inr fh \<and> PdfReader e fh = Inr rd
            \<and> reader_num_pages rd = Inr n \<and> reader_metadata rd = Inl (OtherException m)"
  with assms show "get_pdf_info e file_path = Inr (failure (''Error getting PDF info: '' @ m))"
    by (simp add: get_pdf_info_def get_pdf_info_try_def)
qed

theorem get_pdf_info_no_suffix_check_witness:
  "os_path_isabs example_env ''/docs/c.txt'' \<and> os_path_exists example_env ''/docs/c.txt''
   \<and> \<not> ends_pdf_ci ''/docs/c.txt''
   \<and> open_rb example_env ''/docs/c.txt'' = Inr ''/docs/c.txt''
   \<and> PdfReader example_env ''/docs/c.txt'' = Inl (OtherException ''EOF marker not found'')
   \<and> get_pdf_info example_env ''/docs/c.txt'' =
       Inr (failure ''Error getting PDF info: EOF marker not found'')"
proof -
  have h: "os_path_isabs example_env ''/docs/c.txt''" "os_path_exists example_env ''/docs/c.txt''"
    by (simp_all add: example_env_def)
  have n: "\<not> ends_pdf_ci ''/docs/c.txt''"
    by (simp add: ends_pdf_ci_def)
  have o: "open_rb example_env ''/docs/c.txt'' = Inr ''/docs/c.txt''"
    "PdfReader example_env ''/docs/c.txt'' = Inl (OtherException ''EOF marker not found'')"
    by (simp_all add: example_env_def)
  from get_pdf_info_no_suffix_check [OF h] o
  have "get_pdf_info example_env ''/docs/c.txt'' =
       Inr (failure (''Error getting PDF info: '' @ ''EOF marker not found''))"
    by blast
  then have "get_pdf_info example_env ''/docs/c.txt'' =
       Inr (failure ''Error getting PDF info: EOF marker not found'')"
    by simp
  with h n o show ?thesis by (intro conjI)
qed

section \<open>Exceptions\<close>

text \<open>
  C4, as stated, fails: not every exception raised after validation becomes a failure
  envelope. With \<open>extract_tables\<close> set, the exception raised by the table extraction
  of page 2 of \<open>/docs/a.pdf\<close> is caught by the handler inside the loop; the call
  succeeds and the message is recorded on the page as \<open>table_extraction_error\<close>,
  without the path.
\<close>

theorem table_exception_not_failure_counterexample:
  "extract_tables (example_pages ! 1) = Inl (OtherException ''bad table'')
   \<and> read_pdf_text example_env ''/docs/a.pdf'' (Some [2]) True =
       Inr [(''success'', PyBool True), (''file_path'', PyStr ''/docs/a.pdf''),
            (''pages'', PyList [PyDict [(''page_number'', PyInt 2), (''text'', PyStr []),
                                        (''tables'', PyList []),
                                        (''table_extraction_error'', PyStr ''bad table'')]]),
            (''total_pages'', PyInt 5), (''full_text'', PyStr [])]"
  by code_simp

text \<open>
  C4, amended. No exception escapes any of the three tools: each returns a dictionary
  for every input. Every exception that leaves the body of a tool's \<open>try\<close> (so every
  exception raised after validation but those the source handles in place: the table
  extraction of a page, the stat calls of a file) is turned into a failure envelope;
  for a \<open>PermissionError\<close> the message holds the input path and the system message.
\<close>

theorem exceptions_at_boundary:
  "(\<exists>r. read_pdf_text e p page_numbers extract_tbls = Inr r)
   \<and> (\<exists>r. get_pdf_info e p = Inr r)
   \<and> (\<exists>r. list_pdfs_in_directory e p = Inr r)
   \<and> (\<forall>m. read_pdf_text_try e p page_numbers extract_tbls = Inl (PermissionError m) \<longrightarrow>
          read_pdf_text e p page_numbers extract_tbls =
            Inr (failure (''Permission denied accessing file: '' @ p @ ''. Error: '' @ m)))
   \<and> (\<forall>m. read_pdf_text_try e p page_numbers extract_tbls = Inl (OtherException m) \<longrightarrow>
          read_pdf_text e p page_numbers extract_tbls =
            Inr (failure (''Error reading PDF: '' @ m)))
   \<and> (\<forall>m. get_pdf_info_try e p = Inl (PermissionError m) \<longrightarrow>
          get_pdf_info e p =
            Inr (failure (''Permission denied accessing file: '' @ p @ ''. Error: '' @ m)))
   \<and> (\<forall>m. get_pdf_info_try e p = Inl (OtherException m) \<longrightarrow>
          get_pdf_info e p = Inr (failure (''Error getting PDF info: '' @ m)))
   \<and> (\<forall>m. list_pdfs_in_directory_try e p = Inl (PermissionError m) \<longrightarrow>
          list_pdfs_in_directory e p =
            Inr (failure (''Permission denied accessing directory: '' @ p @ ''. Error: '' @ m)))
   \<and> (\<forall>m. list_pdfs_in_directory_try e p = Inl (OtherException m) \<longrightarrow>
          list_pdfs_in_directory e p = Inr (failure (''Error listing PDFs: '' @ m)))"
proof (intro conjI allI impI)
  show "\<exists>r. read_pdf_text e p page_numbers extract_tbls = Inr r"
    by (simp add: read_pdf_text_def split: sum.splits exn.splits)
  show "\<exists>r. get_pdf_info e p = Inr r"
    by (simp add: get_pdf_info_def split: sum.splits exn.splits)
  show "\<exists>r. list_pdfs_in_directory e p = Inr r"
    by (simp add: list_pdfs_in_directory_def split: sum.splits exn.splits)
qed (simp_all add: read_pdf_text_def get_pdf_info_def list_pdfs_in_directory_def)

theorem exceptions_at_boundary_witness:
  "read_pdf_text_try example_env ''/docs/b.PDF'' None False =
     Inl (PermissionError ''[Errno 13] Permission denied'')
   \<and> read_pdf_text example_env ''/docs/b.PDF'' None False =
     Inr (failure ''Permission denied accessing file: /docs/b.PDF. Error: [Errno 13] Permission denied'')
   \<and> read_pdf_text_try example_env ''/docs/sub/d.pdf'' None False =
     Inl (OtherException ''No /Root object'')
   \<and> read_pdf_text example_env ''/docs/sub/d.pdf'' None False =
     Inr (failure ''Error reading PDF: No /Root object'')
   \<and> get_pdf_info_try example_env ''/docs/b.PDF'' =
     Inl (PermissionError ''[Errno 13] Permission denied'')
   \<and> get_pdf_info example_env ''/docs/b.PDF'' =
     Inr (failure ''Permission denied accessing file: /docs/b.PDF. Error: [Errno 13] Permission denied'')
   \<and> get_pdf_info_try example_env ''/docs/c.txt'' = Inl (OtherException ''EOF marker not found'')
   \<and> get_pdf_info example_env ''/docs/c.txt'' =
     Inr (failure ''Error getting PDF info: EOF marker not found'')
   \<and> list_pdfs_in_directory_try example_env ''/private'' =
     Inl (PermissionError ''[Errno 13] Permission denied'')
   \<and> list_pdfs_in_directory example_env ''/private'' =
     Inr (failure ''Permission denied accessing directory: /private. Error: [Errno 13] Permission denied'')
   \<and> list_pdfs_in_directory_try example_env ''/broken'' =
     Inl (OtherException ''[Errno 5] Input/output error'')
   \<and> list_pdfs_in_directory example_env ''/broken'' =
     Inr (failure ''Error listing PDFs: [Errno 5] Input/output error'')"
proof -
  have t1: "read_pdf_text_try example_env ''/docs/b.PDF'' None False =
     Inl (PermissionError ''[Errno 13] Permission denied'')"
    by code_simp
  have t2: "read_pdf_text_try example_env ''/docs/sub/d.pdf'' None False =
     Inl (OtherException ''No /Root object'')"
    by code_simp
  have t3: "get_pdf_info_try example_env ''/docs/b.PDF'' =
     Inl (PermissionError ''[Errno 13] Permission denied'')"
    by code_simp
  have t4: "get_pdf_info_try example_env ''/docs/c.txt'' =
     Inl (OtherException ''EOF marker not found'')"
    by code_simp
  have t5: "list_pdfs_in_directory_try example_env ''/private'' =
     Inl (PermissionError ''[Errno 13] Permission denied'')"
    by code_simp
  have t6: "list_pdfs_in_directory_try example_env ''/broken'' =
     Inl (OtherException ''[Errno 5] Input/output error'')"
    by code_simp
  from exceptions_at_boundary [of example_env "''/docs/b.PDF''" None False] t1
  have r1: "read_pdf_text example_env ''/docs/b.PDF'' None False =
     Inr (failure ''Permission denied accessing file: /docs/b.PDF. Error: [Errno 13] Permission denied'')"
    by simp
  from exceptions_at_boundary [of example_env "''/docs/sub/d.pdf''" None False] t2
  have r2: "read_pdf_text example_env ''/docs/sub/d.pdf'' None False =
     Inr (failure ''Error reading PDF: No /Root object'')"
    by simp
  from exceptions_at_boundary [of example_env "''/docs/b.PDF''" None False] t3
  have r3: "get_pdf_info example_env ''/docs/b.PDF'' =
     Inr (failure ''Permission denied accessing file: /docs/b.PDF. Error: [Errno 13] Permission denied'')"
    by simp
  from exceptions_at_boundary [of example_env "''/docs/c.txt''" None False] t4
  have r4: "get_pdf_info example_env ''/docs/c.txt'' =
     Inr (failure ''Error getting PDF info: EOF marker not found'')"
    by simp
  from exceptions_at_boundary [of example_env "''/private''" None False] t5
  have r5: "list_pdfs_in_directory example_env ''/private'' =
     Inr (failure ''Permission denied accessing directory: /private. Error: [Errno 13] Permission denied'')"
    by simp
  from exceptions_at_boundary [of example_env "''/broken''" None False] t6
  have r6: "list_pdfs_in_directory example_env ''/broken'' =
     Inr (failure ''Error listing PDFs: [Errno 5] Input/output error'')"
    by simp
  from t1 r1 t2 r2 t3 r3 t4 r4 t5 r5 t6 r6 show ?thesis by (intro conjI)
qed

section \<open>The entries of list_pdfs_in_directory\<close>

text \<open>The two loops append one entry per file whose name passes the suffix test.\<close>

lemma scan_files_eq:
  "scan_files e d rootdir files acc =
     acc @ map (pdf_entry e d rootdir) (filter ends_pdf_ci files)"
  by (induction files arbitrary: acc) (simp_all add: endswith_lower_pdf)

lemma scan_walk_eq:
  "scan_walk e d triples acc =
     acc @ map (\<lambda>(rootdir, file). pdf_entry e d rootdir file) (found_pdfs triples)"
proof (induction triples arbitrary: acc)
  case Nil
  then show ?case by (simp add: found_pdfs_def)
next
  case (Cons t triples)
  obtain rootdir dirs files where t: "t = (rootdir, dirs, files)"
    by (cases t)
  have "found_pdfs (t # triples) = map (Pair rootdir) (filter ends_pdf_ci files) @ found_pdfs triples"
    by (simp add: found_pdfs_def t)
  with Cons.IH show ?case
    by (simp add: t scan_files_eq o_def)
qed

lemma pdf_entry_ok: "entry_for e (rootdir, file) (pdf_entry e d rootdir file)"
  by (simp add: entry_for_def pdf_entry_def Let_def split: sum.splits exn.splits prod.splits)

lemma pdf_entries_ok:
  "list_all2 (entry_for e) found (map (\<lambda>(rootdir, file). pdf_entry e d rootdir file) found)"
proof (induction found)
  case Nil
  then show ?case by simp
next
  case (Cons x found)
  then show ?case by (cases x) (simp add: pdf_entry_ok)
qed

text \<open>
  C6. When validation passes and the walk completes, \<open>list_pdfs_in_directory\<close>
  succeeds, and \<open>pdf_files\<close> holds exactly one entry for each file of the walk whose
  name ends in \<open>.pdf\<close> in any case, in traversal order, \<open>pdf_count\<close> being their
  number. The entry of a file has \<open>size\<close> and \<open>modified\<close> when both stat calls
  succeed, \<open>permission_error\<close> instead when one raises a permission error, and
  \<open>error\<close> instead when one raises anything else; no stat failure drops a file or
  ends the walk.
\<close>

theorem list_pdfs_entries:
  assumes "os_path_isabs e directory_path" and "os_path_exists e directory_path"
    and "os_path_isdir e directory_path" and "os_walk e directory_path = Inr triples"
  shows "\<exists>entries.
           list_pdfs_in_directory e directory_path =
             Inr [(''success'', PyBool True),
                  (''search_directory'', PyStr directory_path),
                  (''pdf_count'', PyInt (int (length (found_pdfs triples)))),
                  (''pdf_files'', PyList (map PyDict entries))]
         \<and> list_all2 (entry_for e) (found_pdfs triples) entries"
proof -
  let ?entries = "map (\<lambda>(rootdir, file). pdf_entry e directory_path rootdir file) (found_pdfs triples)"
  have "list_pdfs_in_directory e directory_path =
             Inr [(''success'', PyBool True),
                  (''search_directory'', PyStr directory_path),
                  (''pdf_count'', PyInt (int (length (found_pdfs triples)))),
                  (''pdf_files'', PyList (map PyDict ?entries))]"
    using assms
    by (simp add: list_pdfs_in_directory_def list_pdfs_in_directory_try_def scan_walk_eq)
  moreover have "list_all2 (entry_for e) (found_pdfs triples) ?entries"
    by (rule pdf_entries_ok)
  ultimately show ?thesis by (intro exI conjI)
qed

theorem list_pdfs_entries_witness:
  "os_path_isabs example_env ''/docs'' \<and> os_path_exists example_env ''/docs''
   \<and> os_path_isdir example_env ''/docs''
   \<and> os_walk example_env ''/docs'' =
       Inr [(''/docs'', [''sub''], [''a.pdf'', ''b.PDF'', ''c.txt'']), (''/docs/sub'', [], [''d.pdf''])]
   \<and> (\<exists>entries.
         list_pdfs_in_directory example_env ''/docs'' =
           Inr [(''success'', PyBool True),
                (''search_directory'', PyStr ''/docs''),
                (''pdf_count'', PyInt 3),
                (''pdf_files'', PyList (map PyDict entries))]
       \<and> list_all2 (entry_for example_env)
            [(''/docs'', ''a.pdf''), (''/docs'', ''b.PDF''), (''/docs/sub'', ''d.pdf'')] entries)
   \<and> list_pdfs_in_directory example_env ''/docs'' =
       Inr [(''success'', PyBool True), (''search_directory'', PyStr ''/docs''),
            (''pdf_count'', PyInt 3),
            (''pdf_files'',
             PyList
              [PyDict [(''filename'', PyStr ''a.pdf''), (''full_path'', PyStr ''/docs/a.pdf''),
                       (''relative_path'', PyStr ''a.pdf''), (''directory'', PyStr ''/docs''),
                       (''size'', PyInt 2048), (''modified'', PyFloat 1700000000)],
               PyDict [(''filename'', PyStr ''b.PDF''), (''full_path'', PyStr ''/docs/b.PDF''),
                       (''relative_path'', PyStr ''b.PDF''), (''directory'', PyStr ''/docs''),
                       (''permission_error'', PyStr ''[Errno 13] Permission denied'')],
               PyDict [(''filename'', PyStr ''d.pdf''), (''full_path'', PyStr ''/docs/sub/d.pdf''),
                       (''relative_path'', PyStr ''sub/d.pdf''),
                       (''directory'', PyStr ''/docs/sub''),
                       (''error'', PyStr ''[Errno 5] Input/output error'')]])]"
proof -
  let ?triples = "[(''/docs'', [''sub''], [''a.pdf'', ''b.PDF'', ''c.txt'']),
                   (''/docs/sub'', [], [''d.pdf''])]"
  have h: "os_path_isabs example_env ''/docs''" "os_path_exists example_env ''/docs''"
    "os_path_isdir example_env ''/docs''" "os_walk example_env ''/docs'' = Inr ?triples"
    by (simp_all add: example_env_def)
  have f: "found_pdfs ?triples =
             [(''/docs'', ''a.pdf''), (''/docs'', ''b.PDF''), (''/docs/sub'', ''d.pdf'')]"
    by (simp add: found_pdfs_def ends_pdf_ci_def)
  from list_pdfs_entries [OF h]
  have "\<exists>entries.
         list_pdfs_in_directory example_env ''/docs'' =
           Inr [(''success'', PyBool True),
                (''search_directory'', PyStr ''/docs''),
                (''pdf_count'', PyInt 3),
                (''pdf_files'', PyList (map PyDict entries))]
       \<and> list_all2 (entry_for example_env)
            [(''/docs'', ''a.pdf''), (''/docs'', ''b.PDF''), (''/docs/sub'', ''d.pdf'')] entries"
    unfolding f by simp
  moreover have "list_pdfs_in_directory example_env ''/docs'' =
       Inr [(''success'', PyBool True), (''search_directory'', PyStr ''/docs''),
            (''pdf_count'', PyInt 3),
            (''pdf_files'',
             PyList
              [PyDict [(''filename'', PyStr ''a.pdf''), (''full_path'', PyStr ''/docs/a.pdf''),
                       (''relative_path'', PyStr ''a.pdf''), (''directory'', PyStr ''/docs''),
                       (''size'', PyInt 2048), (''modified'', PyFloat 1700000000)],
               PyDict [(''filename'', PyStr ''b.PDF''), (''full_path'', PyStr ''/docs/b.PDF''),
                       (''relative_path'', PyStr ''b.PDF''), (''directory'', PyStr ''/docs''),
                       (''permission_error'', PyStr ''[Errno 13] Permission denied'')],
               PyDict [(''filename'', PyStr ''d.pdf''), (''full_path'', PyStr ''/docs/sub/d.pdf''),
                       (''relative_path'', PyStr ''sub/d.pdf''),
                       (''directory'', PyStr ''/docs/sub''),
                       (''error'', PyStr ''[Errno 5] Input/output error'')]])]"
    by code_simp
  ultimately show ?thesis using h by (intro conjI)
qed

section \<open>The text of the result\<close>

lemma selected_page_texts:
  "map (\<lambda>p. page_text (pgs ! nat (p - 1))) (selected_numbers pn n) =
     map (\<lambda>i. page_text (pgs ! nat i)) (pages_to_process pn n)"
  by (simp add: pages_to_process_numbers [symmetric] o_def)

text \<open>
  C3. In every successful result of \<open>read_pdf_text\<close>, the \<open>text\<close> fields of
  \<open>pages\<close> are the texts of the document's pages of the working page set, in
  processing order (empty where extraction yields nothing), and \<open>full_text\<close> is these
  texts, in the same order, joined with two newlines. When validation passes, the
  document opens and the working page set is empty (as for \<open>page_numbers = [0, 99]\<close>
  on five pages), the call succeeds with an empty \<open>pages\<close> list and an empty
  \<open>full_text\<close>.
\<close>

theorem read_pdf_text_full_text:
  "(\<forall>r. read_pdf_text e file_path page_numbers extract_tbls = Inr r
         \<and> map_of r ''success'' = Some (PyBool True) \<longrightarrow>
        (\<exists>doc pdf_pages infos.
            pdfplumber_open e file_path = Inr doc \<and> pages doc = Inr pdf_pages
          \<and> map_of r ''pages'' = Some (PyList (map PyDict infos))
          \<and> map (\<lambda>info. map_of info ''text'') infos =
              map (\<lambda>p. Some (PyStr (page_text (pdf_pages ! nat (p - 1)))))
                (selected_numbers page_numbers (length pdf_pages))
          \<and> map_of r ''full_text'' =
              Some (PyStr (join newline2
                      (map (\<lambda>p. page_text (pdf_pages ! nat (p - 1)))
                         (selected_numbers page_numbers (length pdf_pages)))))))
   \<and> (os_path_isabs e file_path \<and> os_path_exists e file_path \<and> ends_pdf_ci file_path
        \<and> pdfplumber_open e file_path = Inr doc \<and> pages doc = Inr pdf_pages
        \<and> selected_numbers page_numbers (length pdf_pages) = [] \<longrightarrow>
      read_pdf_text e file_path page_numbers extract_tbls =
        Inr [(''success'', PyBool True),
             (''file_path'', PyStr file_path),
             (''pages'', PyList []),
             (''total_pages'', PyInt (int (length pdf_pages))),
             (''full_text'', PyStr [])])"
proof (intro conjI allI impI)
  fix r
  assume "read_pdf_text e file_path page_numbers extract_tbls = Inr r
            \<and> map_of r ''success'' = Some (PyBool True)"
  then obtain doc' pgs res where
    op: "pdfplumber_open e file_path = Inr doc'" "pages doc' = Inr pgs" and
    res: "list_all2 (\<lambda>i x. process_page pgs extract_tbls i = Inr x)
            (pages_to_process page_numbers (length pgs)) res" and
    r: "r = [(''success'', PyBool True),
             (''file_path'', PyStr file_path),
             (''pages'', PyList (map (\<lambda>x. PyDict (fst x)) res)),
             (''total_pages'', PyInt (int (length pgs))),
             (''full_text'', PyStr (join newline2 (map snd res)))]"
    using read_pdf_text_success [of e file_path page_numbers extract_tbls r] by blast
  let ?sel = "selected_numbers page_numbers (length pgs)"
  have texts: "map snd res = map (\<lambda>p. page_text (pgs ! nat (p - 1))) ?sel"
    using results_page_texts [OF res pages_to_process_nonneg]
    by (simp only: selected_page_texts)
  have a: "map_of r ''pages'' = Some (PyList (map PyDict (map fst res)))"
    by (simp add: r o_def)
  have "map (\<lambda>info. map_of info ''text'') (map fst res)
          = map (\<lambda>t. Some (PyStr t)) (map snd res)"
    using results_texts [OF res] by (simp add: o_def)
  then have b: "map (\<lambda>info. map_of info ''text'') (map fst res)
          = map (\<lambda>p. Some (PyStr (page_text (pgs ! nat (p - 1))))) ?sel"
    by (simp only: texts map_map o_def)
  have "map_of r ''full_text'' = Some (PyStr (join newline2 (map snd res)))"
    by (simp add: r)
  then have c: "map_of r ''full_text'' =
              Some (PyStr (join newline2 (map (\<lambda>p. page_text (pgs ! nat (p - 1))) ?sel)))"
    by (simp only: texts)
  from op a b c show "\<exists>doc pdf_pages infos.
            pdfplumber_open e file_path = Inr doc \<and> pages doc = Inr pdf_pages
          \<and> map_of r ''pages'' = Some (PyList (map PyDict infos))
          \<and> map (\<lambda>info. map_of info ''text'') infos =
              map (\<lambda>p. Some (PyStr (page_text (pdf_pages ! nat (p - 1)))))
                (selected_numbers page_numbers (length pdf_pages))
          \<and> map_of r ''full_text'' =
              Some (PyStr (join newline2
                      (map (\<lambda>p. page_text (pdf_pages ! nat (p - 1)))
                         (selected_numbers page_numbers (length pdf_pages)))))"
    by (intro exI conjI)
next
  assume a: "os_path_isabs e file_path \<and> os_path_exists e file_path \<and> ends_pdf_ci file_path
        \<and> pdfplumber_open e file_path = Inr doc \<and> pages doc = Inr pdf_pages
        \<and> selected_numbers page_numbers (length pdf_pages) = []"
  have "map (\<lambda>i. i + 1) (pages_to_process page_numbers (length pdf_pages)) = []"
    using a by (simp only: pages_to_process_numbers)
  then have "pages_to_process page_numbers (length pdf_pages) = []"
    by simp
  with a show "read_pdf_text e file_path page_numbers extract_tbls =
        Inr [(''success'', PyBool True),
             (''file_path'', PyStr file_path),
             (''pages'', PyList []),
             (''total_pages'', PyInt (int (length pdf_pages))),
             (''full_text'', PyStr [])]"
    by (simp add: read_pdf_text_def read_pdf_text_try_def endswith_lower_pdf)
qed


theorem read_pdf_text_full_text_witness:
  "read_pdf_text example_env ''/docs/a.pdf'' None False =
     Inr [(''success'', PyBool True), (''file_path'', PyStr ''/docs/a.pdf''),
          (''pages'', PyList [PyDict [(''page_number'', PyInt 1), (''text'', PyStr ''one'')],
                             PyDict [(''page_number'', PyInt 2), (''text'', PyStr [])],
                             PyDict [(''page_number'', PyInt 3), (''text'', PyStr ''three'')],
                             PyDict [(''page_number'', PyInt 4), (''text'', PyStr ''four'')],
                             PyDict [(''page_number'', PyInt 5), (''text'', PyStr ''five'')]]),
          (''total_pages'', PyInt 5),
          (''full_text'', PyStr (''one'' @ [CHR 0x0A, CHR 0x0A] @ [CHR 0x0A, CHR 0x0A] @ ''three'' @ [CHR 0x0A, CHR 0x0A] @ ''four'' @ [CHR 0x0A, CHR 0x0A] @ ''five''))]
   \<and> join newline2
         (map (\<lambda>p. page_text (example_pages ! nat (p - 1)))
            (selected_numbers None (length example_pages)))
       = ''one'' @ [CHR 0x0A, CHR 0x0A] @ [CHR 0x0A, CHR 0x0A] @ ''three'' @ [CHR 0x0A, CHR 0x0A] @ ''four'' @ [CHR 0x0A, CHR 0x0A] @ ''five''
   \<and> read_pdf_text example_env ''/docs/a.pdf'' (Some [0, 99]) False =
     Inr [(''success'', PyBool True),
          (''file_path'', PyStr ''/docs/a.pdf''),
          (''pages'', PyList []),
          (''total_pages'', PyInt 5),
          (''full_text'', PyStr [])]"
proof -
  let ?r = "[(''success'', PyBool True), (''file_path'', PyStr ''/docs/a.pdf''),
          (''pages'', PyList [PyDict [(''page_number'', PyInt 1), (''text'', PyStr ''one'')],
                             PyDict [(''page_number'', PyInt 2), (''text'', PyStr [])],
                             PyDict [(''page_number'', PyInt 3), (''text'', PyStr ''three'')],
                             PyDict [(''page_number'', PyInt 4), (''text'', PyStr ''four'')],
                             PyDict [(''page_number'', PyInt 5), (''text'', PyStr ''five'')]]),
          (''total_pages'', PyInt 5),
          (''full_text'', PyStr (''one'' @ [CHR 0x0A, CHR 0x0A] @ [CHR 0x0A, CHR 0x0A] @ ''three'' @ [CHR 0x0A, CHR 0x0A] @ ''four'' @ [CHR 0x0A, CHR 0x0A] @ ''five''))]"
  have run: "read_pdf_text example_env ''/docs/a.pdf'' None False = Inr ?r"
    by code_simp
  have ok: "map_of ?r ''success'' = Some (PyBool True)"
    by simp
  have op: "pdfplumber_open example_env ''/docs/a.pdf'' = Inr \<lparr>pages = Inr example_pages\<rparr>"
    by (simp add: example_env_def)
  from read_pdf_text_full_text [of example_env "''/docs/a.pdf''" None False] run ok
  obtain doc pgs where
    d: "pdfplumber_open example_env ''/docs/a.pdf'' = Inr doc" "pages doc = Inr pgs"
      "map_of ?r ''full_text'' =
         Some (PyStr (join newline2
                 (map (\<lambda>p. page_text (pgs ! nat (p - 1))) (selected_numbers None (length pgs)))))"
    by blast
  from d(1,2) op have "pgs = example_pages" by auto
  with d(3) have j: "join newline2
         (map (\<lambda>p. page_text (example_pages ! nat (p - 1)))
            (selected_numbers None (length example_pages)))
       = ''one'' @ [CHR 0x0A, CHR 0x0A] @ [CHR 0x0A, CHR 0x0A] @ ''three'' @ [CHR 0x0A, CHR 0x0A] @ ''four'' @ [CHR 0x0A, CHR 0x0A] @ ''five''"
    by simp
  have h: "os_path_isabs example_env ''/docs/a.pdf''" "os_path_exists example_env ''/docs/a.pdf''"
    "ends_pdf_ci ''/docs/a.pdf''"
    "pages \<lparr>pages = Inr example_pages\<rparr> = Inr example_pages"
    "selected_numbers (Some [0, 99]) (length example_pages) = []"
    by (simp_all add: example_env_def ends_pdf_ci_def selected_numbers_def kept_numbers_def
          example_pages_def)
  have len: "int (length example_pages) = 5"
    by (simp add: example_pages_def)
  from read_pdf_text_full_text [of example_env "''/docs/a.pdf''" "Some [0, 99]" False
         "\<lparr>pages = Inr example_pages\<rparr>" example_pages] h op len
  have emp: "read_pdf_text example_env ''/docs/a.pdf'' (Some [0, 99]) False =
     Inr [(''success'', PyBool True),
          (''file_path'', PyStr ''/docs/a.pdf''),
          (''pages'', PyList []),
          (''total_pages'', PyInt 5),
          (''full_text'', PyStr [])]"
    by simp
  from run j emp show ?thesis by (intro conjI)
qed

section \<open>Two calls in a row\<close>

lemma exit_enter_file: "exit_file file_path (enter_file file_path s) = s"
  by (simp add: exit_file_def enter_file_def)

text \<open>
  A call answers as the tool does in the world as it is for the state of the process,
  and leaves that state as it found it.
\<close>

lemma read_pdf_text_call_eq:
  "read_pdf_text_call w s file_path page_numbers extract_tbls =
     (read_pdf_text (w s) file_path page_numbers extract_tbls, s)"
  by (simp add: read_pdf_text_call_def read_pdf_text_def read_pdf_text_try_def
        read_pdf_text_block_def read_pdf_text_except_def exit_enter_file Let_def
      split: sum.splits exn.splits prod.splits)

text \<open>
  C10. Whatever the world, even one whose answers depend on what the process holds:
  when \<open>read_pdf_text\<close> is called, and then called again with the same arguments in
  the state the first call left, against the same world, the two calls return the same
  result (so the same \<open>full_text\<close> and \<open>pages\<close>). The first call gives the file
  back on every path and assigns no module variable, so it leaves the process as it
  found it. In the example world a call made while the file is still held fails, so a
  call that kept the file would make the second result differ.
\<close>

theorem read_pdf_text_twice:
  assumes "read_pdf_text_call w s file_path page_numbers extract_tbls = (r1, s1)"
    and "read_pdf_text_call w s1 file_path page_numbers extract_tbls = (r2, s2)"
  shows "r1 = r2 \<and> s1 = s \<and> s2 = s"
proof -
  have "(r1, s1) = (read_pdf_text (w s) file_path page_numbers extract_tbls, s)"
    using assms(1) by (simp only: read_pdf_text_call_eq)
  then have 1: "r1 = read_pdf_text (w s) file_path page_numbers extract_tbls" "s1 = s"
    by simp_all
  have "(r2, s2) = (read_pdf_text (w s1) file_path page_numbers extract_tbls, s1)"
    using assms(2) by (simp only: read_pdf_text_call_eq)
  then have 2: "r2 = read_pdf_text (w s1) file_path page_numbers extract_tbls" "s2 = s1"
    by simp_all
  from 1 2 show ?thesis by simp
qed


theorem read_pdf_text_twice_witness:
  "read_pdf_text_call example_world example_process ''/docs/a.pdf'' (Some [3, 1]) False =
     (Inr [(''success'', PyBool True), (''file_path'', PyStr ''/docs/a.pdf''),
          (''pages'', PyList [PyDict [(''page_number'', PyInt 3), (''text'', PyStr ''three'')],
                             PyDict [(''page_number'', PyInt 1), (''text'', PyStr ''one'')]]),
          (''total_pages'', PyInt 5),
          (''full_text'', PyStr (''three'' @ [CHR 0x0A, CHR 0x0A] @ ''one''))],
      example_process)
   \<and> read_pdf_text_call example_world (enter_file ''/docs/a.pdf'' example_process)
         ''/docs/a.pdf'' (Some [3, 1]) False =
     (Inr [(''success'', PyBool False),
           (''error'', PyStr ''Error reading PDF: [Errno 24] Too many open files'')],
      enter_file ''/docs/a.pdf'' example_process)
   \<and> fst (read_pdf_text_call example_world
          (snd (read_pdf_text_call example_world example_process ''/docs/a.pdf'' (Some [3, 1]) False))
          ''/docs/a.pdf'' (Some [3, 1]) False)
       = Inr [(''success'', PyBool True), (''file_path'', PyStr ''/docs/a.pdf''),
          (''pages'', PyList [PyDict [(''page_number'', PyInt 3), (''text'', PyStr ''three'')],
                             PyDict [(''page_number'', PyInt 1), (''text'', PyStr ''one'')]]),
          (''total_pages'', PyInt 5),
          (''full_text'', PyStr (''three'' @ [CHR 0x0A, CHR 0x0A] @ ''one''))]"
proof -
  let ?c1 = "read_pdf_text_call example_world example_process ''/docs/a.pdf'' (Some [3, 1]) False"
  let ?c2 = "read_pdf_text_call example_world
          (snd (read_pdf_text_call example_world example_process ''/docs/a.pdf'' (Some [3, 1]) False))
          ''/docs/a.pdf'' (Some [3, 1]) False"
  have run: "?c1 = (Inr [(''success'', PyBool True), (''file_path'', PyStr ''/docs/a.pdf''),
          (''pages'', PyList [PyDict [(''page_number'', PyInt 3), (''text'', PyStr ''three'')],
                             PyDict [(''page_number'', PyInt 1), (''text'', PyStr ''one'')]]),
          (''total_pages'', PyInt 5),
          (''full_text'', PyStr (''three'' @ [CHR 0x0A, CHR 0x0A] @ ''one''))], example_process)"
    by code_simp
  have held: "read_pdf_text_call example_world (enter_file ''/docs/a.pdf'' example_process)
         ''/docs/a.pdf'' (Some [3, 1]) False =
     (Inr [(''success'', PyBool False),
           (''error'', PyStr ''Error reading PDF: [Errno 24] Too many open files'')],
      enter_file ''/docs/a.pdf'' example_process)"
    by code_simp
  have first: "?c1 = (fst ?c1, snd ?c1)" and second: "?c2 = (fst ?c2, snd ?c2)"
    by simp_all
  from read_pdf_text_twice [OF first second] have "fst ?c1 = fst ?c2"
    by (rule conjunct1)
  with run have again: "fst ?c2 = Inr [(''success'', PyBool True), (''file_path'', PyStr ''/docs/a.pdf''),
          (''pages'', PyList [PyDict [(''page_number'', PyInt 3), (''text'', PyStr ''three'')],
                             PyDict [(''page_number'', PyInt 1), (''text'', PyStr ''one'')]]),
          (''total_pages'', PyInt 5),
          (''full_text'', PyStr (''three'' @ [CHR 0x0A, CHR 0x0A] @ ''one''))]"
    by simp
  from run held again show ?thesis by (intro conjI)
qed

end
